theory Spec2Isabelle
  imports Complex_Main "HOL-Library.AList"
begin

section \<open>Strings and dictionaries of the host language\<close>

text \<open>
  Texts are lists of characters; a character is one of the code points 0 to 255. The two
  character classes of the regular expressions in \<^verbatim>\<open>text_processor.py\<close>, \<^verbatim>\<open>\s\<close> and
  \<^verbatim>\<open>\w\<close>, are the tables of the \<^verbatim>\<open>re\<close> module for these code points; \<^verbatim>\<open>str.strip\<close> and
  \<^verbatim>\<open>str.split\<close> use the same whitespace class.
\<close>

definition is_space :: "char \<Rightarrow> bool" where
  "is_space c = (of_char c \<in> {9, 10, 11, 12, 13, 28, 29, 30, 31, 32, 133, 160 :: nat})"

definition is_word :: "char \<Rightarrow> bool" where
  "is_word c =
     (let n = of_char c :: nat
      in (48 \<le> n \<and> n \<le> 57) \<or> (65 \<le> n \<and> n \<le> 90) \<or> n = 95 \<or> (97 \<le> n \<and> n \<le> 122)
         \<or> n \<in> {170, 178, 179, 181, 185, 186, 188, 189, 190}
         \<or> (192 \<le> n \<and> n \<le> 214) \<or> (216 \<le> n \<and> n \<le> 246) \<or> 248 \<le> n)"

definition is_digit :: "char \<Rightarrow> bool" where
  \<comment> \<open>\<^verbatim>\<open>str.isdigit\<close> on one character\<close>
  "is_digit c = (let n = of_char c :: nat in (48 \<le> n \<and> n \<le> 57) \<or> n \<in> {178, 179, 185})"

definition newline :: char where
  "newline = CHR 0x0A"

definition lstrip :: "string \<Rightarrow> string" where
  "lstrip text = dropWhile is_space text"

definition rstrip :: "string \<Rightarrow> string" where
  "rstrip text = rev (dropWhile is_space (rev text))"

definition strip :: "string \<Rightarrow> string" where
  \<comment> \<open>\<^verbatim>\<open>text.strip()\<close>\<close>
  "strip text = rstrip (lstrip text)"

fun split_words :: "string \<Rightarrow> string \<Rightarrow> string list" where
  "split_words w [] = (if w = [] then [] else [w])"
| "split_words w (c # cs) =
     (if is_space c then (if w = [] then split_words [] cs else w # split_words [] cs)
      else split_words (w @ [c]) cs)"

definition py_split :: "string \<Rightarrow> string list" where
  \<comment> \<open>\<^verbatim>\<open>text.split()\<close>: the maximal runs of non-whitespace characters\<close>
  "py_split text = split_words [] text"

fun split_on :: "char \<Rightarrow> string \<Rightarrow> string \<Rightarrow> string list" where
  "split_on sep w [] = [w]"
| "split_on sep w (c # cs) = (if c = sep then w # split_on sep [] cs else split_on sep (w @ [c]) cs)"

definition split_lines :: "string \<Rightarrow> string list" where
  \<comment> \<open>\<^verbatim>\<open>text.split('\n')\<close>\<close>
  "split_lines text = split_on newline [] text"

fun join :: "string \<Rightarrow> string list \<Rightarrow> string" where
  "join sep [] = []"
| "join sep [x] = x"
| "join sep (x # y # ys) = x @ sep @ join sep (y # ys)"

definition digit_char :: "nat \<Rightarrow> char" where
  "digit_char d = char_of (48 + d)"

fun show_nat :: "nat \<Rightarrow> string" where
  "show_nat n = (if n < 10 then [digit_char n] else show_nat (n div 10) @ [digit_char (n mod 10)])"

declare show_nat.simps [simp del]

text \<open>
  A dictionary keeps its keys in insertion order; it is an association list, read with
  \<^const>\<open>map_of\<close> and written with \<^const>\<open>AList.update\<close> (an existing key keeps its
  place, a new key goes to the end).
\<close>

type_synonym ('k, 'v) dict = "('k \<times> 'v) list"

text \<open>
  An exception is the value \<open>Inl msg\<close>, where \<open>msg\<close> is the text \<^verbatim>\<open>str(e)\<close> that the
  handlers of the source put into their messages.
\<close>

type_synonym 'a result = "string + 'a"

section \<open>Configuration (src/config/settings.py)\<close>

definition UPLOAD_DIR :: string where
  "UPLOAD_DIR = ''data/uploads''"

definition PROCESSED_DIR :: string where
  "PROCESSED_DIR = ''data/processed''"

definition MAX_FILE_SIZE :: nat where
  "MAX_FILE_SIZE = 50 * 1024 * 1024"

definition ALLOWED_EXTENSIONS :: "string set" where
  "ALLOWED_EXTENSIONS = {''.pdf'', ''.png'', ''.jpg'', ''.jpeg'', ''.tiff'', ''.docx''}"

definition MAX_CHUNK_SIZE :: nat where
  "MAX_CHUNK_SIZE = 1000"

definition CHUNK_OVERLAP :: nat where
  "CHUNK_OVERLAP = 200"

section \<open>Text normalisation and chunking (src/core/text_processor.py)\<close>

definition is_kept :: "char \<Rightarrow> bool" where
  \<comment> \<open>the characters outside the negated class of the second substitution of \<^verbatim>\<open>clean_text\<close>\<close>
  "is_kept c = (is_word c \<or> is_space c \<or>
     c \<in> {CHR ''.'', CHR '','', CHR ''!'', CHR ''?'', CHR '';'', CHR '':'', CHR ''('', CHR '')'',
          CHR ''-'', CHR 0x27, CHR 0x22})"

fun sub_whitespace :: "string \<Rightarrow> string" where
  \<comment> \<open>\<^verbatim>\<open>re.sub(r'\s+', ' ', text)\<close>: every maximal run of whitespace becomes one blank\<close>
  "sub_whitespace [] = []"
| "sub_whitespace [c] = [if is_space c then CHR '' '' else c]"
| "sub_whitespace (c # d # cs) =
     (if is_space c
      then (if is_space d then sub_whitespace (d # cs) else CHR '' '' # sub_whitespace (d # cs))
      else c # sub_whitespace (d # cs))"

definition sub_special :: "string \<Rightarrow> string" where
  \<comment> \<open>the second substitution of \<^verbatim>\<open>clean_text\<close>: a character outside the class becomes a blank\<close>
  "sub_special text = map (\<lambda>c. if is_kept c then c else CHR '' '') text"

definition at_boundary :: "string \<Rightarrow> bool" where
  \<comment> \<open>\<^verbatim>\<open>\b\<close> after a word character: the rest of the text is empty or starts with a non-word character\<close>
  "at_boundary cs = (case cs of [] \<Rightarrow> True | d # _ \<Rightarrow> \<not> is_word d)"

fun sub_isolated :: "char \<Rightarrow> char \<Rightarrow> bool \<Rightarrow> string \<Rightarrow> string" where
  \<comment> \<open>\<^verbatim>\<open>re.sub(r'\bt\b', r, text)\<close> for a word character \<open>t\<close>; \<open>p\<close> tells whether the
      character before the text is a word character\<close>
  "sub_isolated t r p [] = []"
| "sub_isolated t r p (c # cs) =
     (if c = t \<and> \<not> p \<and> at_boundary cs then r else c) # sub_isolated t r (is_word c) cs"

definition fix_common_ocr_errors :: "string \<Rightarrow> string" where
  \<comment> \<open>the three substitutions of the dictionary \<^verbatim>\<open>fixes\<close>, in its order\<close>
  "fix_common_ocr_errors text =
     sub_whitespace
       (sub_isolated CHR ''1'' CHR ''I'' False (sub_isolated CHR ''0'' CHR ''O'' False text))"

definition clean_text :: "string \<Rightarrow> string" where
  "clean_text text =
     (if text = [] then []
      else strip (fix_common_ocr_errors (sub_special (sub_whitespace text))))"

text \<open>
  \<^verbatim>\<open>TextProcessor\<close> holds the two sizes and a \<^verbatim>\<open>RecursiveCharacterTextSplitter\<close> built from
  them. The splitter belongs to a library outside the repository: its \<^verbatim>\<open>split_text\<close> is the
  parameter \<open>splitter\<close>, a function of the two sizes and the text.
\<close>

record TextProcessor =
  chunk_size :: nat
  chunk_overlap :: nat

type_synonym splitter = "nat \<Rightarrow> nat \<Rightarrow> string \<Rightarrow> string list"

record chunk_data =
  content :: string
  chunk_id :: nat
  word_count :: nat
  char_count :: nat

definition create_chunks :: "splitter \<Rightarrow> TextProcessor \<Rightarrow> string \<Rightarrow> chunk_data list" where
  "create_chunks split_text tp text =
     (if text = [] then []
      else map (\<lambda>(i, chunk). \<lparr>content = chunk, chunk_id = i,
                               word_count = length (py_split chunk), char_count = length chunk\<rparr>)
             (enumerate 0 (split_text (chunk_size tp) (chunk_overlap tp) text)))"

record document_metadata_rec =
  dm_word_count :: nat
  character_count :: nat
  sentence_count :: nat
  paragraph_count :: nat
  estimated_reading_time :: nat

fun count_runs :: "(char \<Rightarrow> bool) \<Rightarrow> string \<Rightarrow> nat" where
  \<comment> \<open>the number of maximal runs of characters of a class, as \<^verbatim>\<open>len(re.findall(r'[...]+', text))\<close>\<close>
  "count_runs P [] = 0"
| "count_runs P [c] = (if P c then 1 else 0)"
| "count_runs P (c # d # cs) = (if P c \<and> \<not> P d then 1 else 0) + count_runs P (d # cs)"

fun count_blank_lines :: "string \<Rightarrow> nat" where
  \<comment> \<open>the occurrences of two newlines found from left to right without overlap\<close>
  "count_blank_lines [] = 0"
| "count_blank_lines [c] = 0"
| "count_blank_lines (c # d # cs) =
     (if c = newline \<and> d = newline then Suc (count_blank_lines cs) else count_blank_lines (d # cs))"

definition get_document_metadata :: "string \<Rightarrow> document_metadata_rec option" where
  \<comment> \<open>\<open>None\<close> is the empty dictionary returned for an empty text\<close>
  "get_document_metadata text =
     (if text = [] then None
      else Some \<lparr>dm_word_count = length (py_split text),
                 character_count = length text,
                 sentence_count = count_runs (\<lambda>c. c \<in> {CHR ''.'', CHR ''!'', CHR ''?''}) text,
                 paragraph_count = count_blank_lines text + 1,
                 estimated_reading_time = max 1 (length (py_split text) div 200)\<rparr>)"

section \<open>The workflow state (src/agents/multi_file_state.py)\<close>

datatype ProcessingStatus =
  IDLE | UPLOADING | UPLOADED | PROCESSING | OCR_COMPLETE | SUMMARIZED | READY | ERROR

text \<open>
  \<^verbatim>\<open>FileInfo\<close> is a dataclass. Its optional fields are options; the three fields that
  \<^verbatim>\<open>__post_init__\<close> fills are never \<^verbatim>\<open>None\<close>. The field \<^verbatim>\<open>error_message\<close> of a file is
  \<open>file_error_message\<close> here, since the state has a key of the same name.
\<close>

record FileInfo =
  file_id :: string
  file_name :: string
  file_path :: string
  file_type :: string
  file_size :: nat
  upload_timestamp :: rat
  processing_status :: ProcessingStatus
  file_error_message :: "string option"
  raw_text :: "string option"
  processed_text :: "string option"
  text_quality_score :: "rat option"
  document_chunks :: "string list"
  chunk_metadata :: "chunk_data list"
  document_metadata :: "document_metadata_rec option"
  individual_summary :: "string option"

text \<open>
  An entry of \<^verbatim>\<open>combined_chunks\<close> is a dictionary with six keys; the four keys that a
  \<^verbatim>\<open>FileInfo\<close> or a chunk dictionary also has carry the prefix \<open>cc_\<close>. The key
  \<^verbatim>\<open>metadata\<close> is \<open>None\<close> where the source stores an empty dictionary.
\<close>

record combined_chunk =
  cc_content :: string
  cc_file_id :: string
  cc_file_name :: string
  cc_file_type :: string
  chunk_index :: nat
  metadata :: "chunk_data option"

datatype role = User | Assistant

record chat_entry =
  entry_role :: role
  entry_content :: string

text \<open>
  \<^verbatim>\<open>MultiFileDocumentState\<close> is a typed dictionary; every declared key is a field. The
  source asks whether the key \<^verbatim>\<open>chat_history\<close> is there before it appends, so this field is
  an option, \<open>None\<close> for a state without the key. A retrieved chunk is an entry of
  \<^verbatim>\<open>combined_chunks\<close> with the key \<^verbatim>\<open>similarity_score\<close> added: a pair.
\<close>

record MultiFileDocumentState =
  uploaded_file_paths :: "(string \<times> string) list"
  overall_status :: ProcessingStatus
  current_step :: string
  processing_progress :: "(string, int) dict"
  error_message :: "string option"
  files :: "(string, FileInfo) dict"
  file_upload_order :: "string list"
  total_files :: nat
  files_completed :: nat
  combined_text :: "string option"
  combined_chunks :: "combined_chunk list"
  combined_summary :: "string option"
  suggested_questions :: "string list"
  document_relationships :: "(string, string) dict"
  topic_analysis :: "(string, string) dict"
  current_query :: "string option"
  response :: "string option"
  chat_history :: "chat_entry list option"
  relevant_chunks :: "(combined_chunk \<times> rat) list"
  max_chunk_size :: nat
  overlap_size :: nat
  temperature :: rat
  max_files :: nat

section \<open>File validation and storage (src/core/file_handler.py)\<close>

text \<open>
  What the file system, the clock, the identifier generator and the path functions of the
  standard library answer is the parameter \<open>os\<close>. A call that can raise returns a
  \<open>result\<close>. The clock is read twice for an admitted file: \<open>os_time os i j\<close> is reading
  \<open>j\<close> while file number \<open>i\<close> of the submission is handled.
\<close>

record os_env =
  os_mkdir :: "string \<Rightarrow> string option"
  os_exists :: "string \<Rightarrow> bool"
  os_stat_size :: "string \<Rightarrow> nat result"
  os_copy2 :: "string \<Rightarrow> string \<Rightarrow> string option"
  os_suffix :: "string \<Rightarrow> string"
  os_splitext :: "string \<Rightarrow> string \<times> string"
  os_lower :: "string \<Rightarrow> string"
  os_time :: "nat \<Rightarrow> nat \<Rightarrow> rat"
  os_uuid4 :: "nat \<Rightarrow> string"

datatype validation = Valid | NotExists | TooLarge nat | Unsupported string

definition FileHandler_init :: "os_env \<Rightarrow> string \<Rightarrow> string \<Rightarrow> unit result" where
  \<comment> \<open>the constructor creates the two directories\<close>
  "FileHandler_init os upload_dir processed_dir =
     (case os_mkdir os upload_dir of
        Some e \<Rightarrow> Inl e
      | None \<Rightarrow> (case os_mkdir os processed_dir of Some e \<Rightarrow> Inl e | None \<Rightarrow> Inr ()))"

definition validate_file :: "os_env \<Rightarrow> string \<Rightarrow> nat \<Rightarrow> string set \<Rightarrow> validation result" where
  \<comment> \<open>\<open>Valid\<close> is the pair \<^verbatim>\<open>(True, "")\<close>; the other values are \<^verbatim>\<open>False\<close> with one of the
      three messages\<close>
  "validate_file os path max_size allowed_extensions =
     (if \<not> os_exists os path then Inr NotExists
      else case os_stat_size os path of
        Inl e \<Rightarrow> Inl e
      | Inr size' \<Rightarrow>
          if size' > max_size then Inr (TooLarge size')
          else if os_lower os (os_suffix os path) \<notin> allowed_extensions
          then Inr (Unsupported (os_suffix os path))
          else Inr Valid)"

definition generate_safe_filename :: "os_env \<Rightarrow> rat \<Rightarrow> string \<Rightarrow> string" where
  "generate_safe_filename os now filename =
     (let safe_name = map (\<lambda>c. if is_word c \<or> c \<in> {CHR ''-'', CHR ''_'', CHR ''.''} then c
                                else CHR ''_'') filename;
          (name, ext) = os_splitext os safe_name;
          timestamp = show_nat (nat \<lfloor>now\<rfloor>)
      in name @ ''_'' @ timestamp @ ext)"

definition determine_file_type :: "os_env \<Rightarrow> string \<Rightarrow> string" where
  "determine_file_type os path =
     (let extension = os_lower os (os_suffix os path)
      in if extension = ''.pdf'' then ''pdf''
         else if extension \<in> {''.png'', ''.jpg'', ''.jpeg'', ''.tiff'', ''.bmp''} then ''image''
         else if extension = ''.docx'' then ''docx''
         else ''unknown'')"

definition save_uploaded_file ::
  "os_env \<Rightarrow> string \<Rightarrow> rat \<Rightarrow> string \<Rightarrow> string \<Rightarrow> (string \<times> string \<times> nat) result" where
  \<comment> \<open>every exception is raised again with the prefix\<close>
  "save_uploaded_file os upload_dir now path original_filename =
     (let dest_path = upload_dir @ ''/'' @ generate_safe_filename os now original_filename
      in case os_copy2 os path dest_path of
           Some e \<Rightarrow> Inl (''Error saving file: '' @ e)
         | None \<Rightarrow>
             (case os_stat_size os dest_path of
                Inl e \<Rightarrow> Inl (''Error saving file: '' @ e)
              | Inr size' \<Rightarrow> Inr (dest_path, determine_file_type os dest_path, size')))"

section \<open>Admission of a batch (upload_multiple_files in src/agents/multi_file_processor.py)\<close>

definition new_FileInfo ::
  "string \<Rightarrow> string \<Rightarrow> string \<Rightarrow> string \<Rightarrow> nat \<Rightarrow> rat \<Rightarrow> ProcessingStatus \<Rightarrow> FileInfo" where
  \<comment> \<open>the dataclass constructor with its defaults and \<^verbatim>\<open>__post_init__\<close>\<close>
  "new_FileInfo fid name path type size' ts st =
     \<lparr>file_id = fid, file_name = name, file_path = path, file_type = type, file_size = size',
      upload_timestamp = ts, processing_status = st, file_error_message = None,
      raw_text = None, processed_text = None, text_quality_score = None,
      document_chunks = [], chunk_metadata = [], document_metadata = None,
      individual_summary = None\<rparr>"

definition upload_one :: "os_env \<Rightarrow> nat \<Rightarrow> string \<Rightarrow> string \<Rightarrow> FileInfo option" where
  \<comment> \<open>the body of the loop for file number \<open>i\<close>: \<open>None\<close> where the source logs the failure
      and goes on with the next file\<close>
  "upload_one os i path name =
     (let fid = os_uuid4 os i
      in case validate_file os path MAX_FILE_SIZE ALLOWED_EXTENSIONS of
           Inl e \<Rightarrow> None
         | Inr v \<Rightarrow>
             if v \<noteq> Valid then None
             else (case save_uploaded_file os UPLOAD_DIR (os_time os i 0) path name of
                     Inl e \<Rightarrow> None
                   | Inr (saved_path, type, size') \<Rightarrow>
                       Some (new_FileInfo fid name saved_path type size' (os_time os i 1) UPLOADED)))"

fun upload_loop ::
  "os_env \<Rightarrow> nat \<Rightarrow> (string \<times> string) list \<Rightarrow> (string, FileInfo) dict \<times> string list
     \<Rightarrow> (string, FileInfo) dict \<times> string list" where
  "upload_loop os i [] acc = acc"
| "upload_loop os i ((path, name) # rest) (fs, order) =
     (case upload_one os i path name of
        None \<Rightarrow> upload_loop os (Suc i) rest (fs, order)
      | Some info \<Rightarrow>
          upload_loop os (Suc i) rest
            (AList.update (file_id info) info fs, order @ [file_id info]))"

definition upload_failed :: "MultiFileDocumentState \<Rightarrow> string \<Rightarrow> MultiFileDocumentState" where
  \<comment> \<open>the outer handler\<close>
  "upload_failed s e =
     s\<lparr>overall_status := ERROR, error_message := Some (''File upload failed: '' @ e)\<rparr>"

definition upload_multiple_files :: "os_env \<Rightarrow> MultiFileDocumentState \<Rightarrow> MultiFileDocumentState" where
  "upload_multiple_files os s =
     (if overall_status s = SUMMARIZED then s
      else
        let s1 = s\<lparr>overall_status := UPLOADING, current_step := ''upload''\<rparr>;
            uploaded_files = uploaded_file_paths s1
        in if uploaded_files = [] then upload_failed s1 ''No files provided for upload''
           else case FileHandler_init os UPLOAD_DIR PROCESSED_DIR of
             Inl e \<Rightarrow> upload_failed s1 e
           | Inr _ \<Rightarrow>
               let s2 = s1\<lparr>total_files := length uploaded_files, files_completed := 0,
                            files := [], file_upload_order := []\<rparr>;
                   (fs, order) = upload_loop os 0 uploaded_files ([], []);
                   s3 = s2\<lparr>files := fs, file_upload_order := order\<rparr>
               in if files s3 = [] then upload_failed s3 ''No files were successfully uploaded''
                  else s3\<lparr>overall_status := UPLOADED,
                           processing_progress := [(''overall'', 20)]\<rparr>)"

section \<open>Extraction of a batch (process_all_files_ocr in src/agents/multi_file_processor.py)\<close>

text \<open>
  The text extraction service is the parameter \<open>ocr\<close>: one function for each file type,
  from the path to the raw text and its confidence, or to an exception. \<^verbatim>\<open>extract_text\<close>
  of \<^verbatim>\<open>OCREngine\<close> selects among them and raises for any other type.
\<close>

record ocr_env =
  extract_from_pdf :: "string \<Rightarrow> (string \<times> rat) result"
  extract_from_image :: "string \<Rightarrow> (string \<times> rat) result"
  extract_from_docx :: "string \<Rightarrow> (string \<times> rat) result"

definition extract_text :: "ocr_env \<Rightarrow> string \<Rightarrow> string \<Rightarrow> (string \<times> rat) result" where
  "extract_text ocr path type =
     (if type = ''pdf'' then extract_from_pdf ocr path
      else if type = ''image'' then extract_from_image ocr path
      else if type = ''docx'' then extract_from_docx ocr path
      else Inl (''Unsupported file type: '' @ type))"

definition file_failed :: "FileInfo \<Rightarrow> string \<Rightarrow> FileInfo" where
  \<comment> \<open>the handler of \<^verbatim>\<open>process_single_file\<close>\<close>
  "file_failed info e = info\<lparr>processing_status := ERROR, file_error_message := Some e\<rparr>"

definition process_single_file :: "ocr_env \<Rightarrow> splitter \<Rightarrow> TextProcessor \<Rightarrow> FileInfo \<Rightarrow> FileInfo" where
  "process_single_file ocr split_text text_processor file_info =
     (let info1 = file_info\<lparr>processing_status := PROCESSING\<rparr>
      in case extract_text ocr (file_path info1) (file_type info1) of
           Inl e \<Rightarrow> file_failed info1 e
         | Inr (raw, confidence) \<Rightarrow>
             if strip raw = [] then file_failed info1 ''No text could be extracted''
             else
               let processed = clean_text raw;
                   chunks = create_chunks split_text text_processor processed;
                   meta = get_document_metadata processed
               in info1\<lparr>raw_text := Some raw,
                         processed_text := Some processed,
                         text_quality_score := Some confidence,
                         document_chunks := map content chunks,
                         chunk_metadata := chunks,
                         document_metadata := meta,
                         processing_status := OCR_COMPLETE\<rparr>)"

text \<open>
  The loop over \<^verbatim>\<open>files.items()\<close>. A file is changed in place and stored again under its own
  key, so the dictionary keeps its keys and their order. The progress of the batch is
  computed in floating point in the source and in exact arithmetic here; the two agree after
  the last file, where the quotient is one, and the values before are overwritten.
\<close>

fun ocr_loop ::
  "ocr_env \<Rightarrow> splitter \<Rightarrow> TextProcessor \<Rightarrow> nat \<Rightarrow> nat \<Rightarrow> (string, FileInfo) dict
     \<Rightarrow> (string, int) dict \<Rightarrow> (string, FileInfo) dict \<times> (string, int) dict" where
  "ocr_loop ocr split_text tp total_files' completed_files [] progress = ([], progress)"
| "ocr_loop ocr split_text tp total_files' completed_files ((fid, info) # rest) progress =
     (let updated = process_single_file ocr split_text tp info;
          completed = completed_files + 1;
          overall = \<lfloor>(of_nat completed / of_nat total_files' :: rat) * 60\<rfloor> + 20;
          progress1 = AList.update ''overall'' overall progress;
          progress2 = AList.update fid
                        (if processing_status updated = OCR_COMPLETE then 100 else 0) progress1;
          (rest', progress3) = ocr_loop ocr split_text tp total_files' completed rest progress2
      in ((fid, updated) # rest', progress3))"

definition ocr_failed :: "MultiFileDocumentState \<Rightarrow> string \<Rightarrow> MultiFileDocumentState" where
  \<comment> \<open>the outer handler\<close>
  "ocr_failed s e =
     s\<lparr>overall_status := ERROR, error_message := Some (''OCR processing failed: '' @ e)\<rparr>"

definition file_section :: "FileInfo \<Rightarrow> string option" where
  \<comment> \<open>the entry of \<^verbatim>\<open>combined_texts\<close> for a file; none for a file whose processed text is
      \<^verbatim>\<open>None\<close> or empty\<close>
  "file_section info =
     (case processed_text info of
        None \<Rightarrow> None
      | Some t \<Rightarrow> if t = [] then None
                  else Some (''=== '' @ file_name info @ '' ==='' @ [newline] @ t))"

definition file_combined_chunks :: "FileInfo \<Rightarrow> combined_chunk list" where
  \<comment> \<open>the inner loop over \<^verbatim>\<open>enumerate(file_info.document_chunks)\<close>\<close>
  "file_combined_chunks info =
     map (\<lambda>(i, chunk). \<lparr>cc_content = chunk, cc_file_id = file_id info,
                         cc_file_name = file_name info, cc_file_type = file_type info,
                         chunk_index = i,
                         metadata = (if i < length (chunk_metadata info)
                                     then Some (chunk_metadata info ! i) else None)\<rparr>)
       (enumerate 0 (document_chunks info))"

definition failed_message :: "FileInfo list \<Rightarrow> string" where
  \<comment> \<open>the message of the exception raised at the completion gate\<close>
  "failed_message infos =
     ''All files must be successfully processed. Failed files: '' @
     join '', '' (map file_name (filter (\<lambda>f. processing_status f \<noteq> OCR_COMPLETE) infos))"

definition process_all_files_ocr ::
  "ocr_env \<Rightarrow> splitter \<Rightarrow> MultiFileDocumentState \<Rightarrow> MultiFileDocumentState" where
  "process_all_files_ocr ocr split_text s =
     (let s1 = s\<lparr>overall_status := PROCESSING, current_step := ''ocr''\<rparr>
      in if files s1 = [] then ocr_failed s1 ''No files to process''
         else
           let s2 = s1\<lparr>max_chunk_size := 2000, overlap_size := 250\<rparr>;
               text_processor = \<lparr>chunk_size = max_chunk_size s2, chunk_overlap = overlap_size s2\<rparr>;
               total = length (files s2);
               (fs, progress) = ocr_loop ocr split_text text_processor total 0 (files s2)
                                  (processing_progress s2);
               s3 = s2\<lparr>files := fs, processing_progress := progress\<rparr>;
               successful_files = filter (\<lambda>f. processing_status f = OCR_COMPLETE) (map snd (files s3))
           in if length successful_files \<noteq> total
              then ocr_failed s3 (failed_message (map snd (files s3)))
              else
                let combined_texts = List.map_filter file_section successful_files;
                    chunks = concat (map file_combined_chunks successful_files)
                in s3\<lparr>combined_text := Some (join [newline, newline] combined_texts),
                       combined_chunks := chunks,
                       files_completed := length successful_files,
                       overall_status := OCR_COMPLETE,
                       processing_progress :=
                         AList.update ''overall'' 80 (processing_progress s3)\<rparr>)"

section \<open>Summarisation (src/agents/multi_file_summarizer.py)\<close>

text \<open>
  The language model and the library around it are the parameter \<open>llm\<close>: whether the
  model client can be built (\<open>llm_init\<close> is the exception of \<^verbatim>\<open>init_chat_model\<close>, if any),
  the reply to a prompt or the exception of the call, the three prompt templates as
  functions of their variables, and \<^verbatim>\<open>str.upper\<close> and \<^verbatim>\<open>repr\<close> (the text of a
  \<^verbatim>\<open>KeyError\<close> is the \<^verbatim>\<open>repr\<close> of the key).
\<close>

record llm_env =
  llm_init :: "string option"
  llm_invoke :: "string \<Rightarrow> string result"
  summary_prompt :: "nat \<Rightarrow> string \<Rightarrow> string \<Rightarrow> string"
  questions_prompt :: "nat \<Rightarrow> string \<Rightarrow> string \<Rightarrow> string"
  qa_prompt :: "string \<Rightarrow> string \<Rightarrow> string option \<Rightarrow> string \<Rightarrow> nat \<Rightarrow> string option \<Rightarrow> string"
  py_upper :: "string \<Rightarrow> string"
  py_repr :: "string \<Rightarrow> string"

fun docs_info_loop ::
  "llm_env \<Rightarrow> (FileInfo \<Rightarrow> string) \<Rightarrow> (string, FileInfo) dict \<Rightarrow> string list \<Rightarrow> string list result" where
  \<comment> \<open>the loop over \<^verbatim>\<open>file_upload_order\<close> that lists the extracted files; a missing key raises\<close>
  "docs_info_loop llm line fs [] = Inr []"
| "docs_info_loop llm line fs (fid # rest) =
     (case map_of fs fid of
        None \<Rightarrow> Inl (py_repr llm fid)
      | Some info \<Rightarrow>
          (case docs_info_loop llm line fs rest of
             Inl e \<Rightarrow> Inl e
           | Inr ls \<Rightarrow> Inr (if processing_status info = OCR_COMPLETE then line info # ls else ls)))"

definition summary_line :: "llm_env \<Rightarrow> FileInfo \<Rightarrow> string" where
  "summary_line llm info =
     ''- **'' @ file_name info @ ''** ('' @ py_upper llm (file_type info) @ ''): '' @
     (case document_metadata info of None \<Rightarrow> ''Unknown'' | Some m \<Rightarrow> show_nat (dm_word_count m)) @
     '' words, '' @
     (case document_metadata info of None \<Rightarrow> ''Unknown'' | Some m \<Rightarrow> show_nat (paragraph_count m)) @
     '' paragraphs''"

definition file_line :: "llm_env \<Rightarrow> FileInfo \<Rightarrow> string" where
  "file_line llm info = ''- '' @ file_name info @ '' ('' @ py_upper llm (file_type info) @ '')''"

definition generate_combined_summary :: "llm_env \<Rightarrow> MultiFileDocumentState \<Rightarrow> string" where
  \<comment> \<open>every exception is caught and returned as a text\<close>
  "generate_combined_summary llm s =
     (let text = (case combined_text s of None \<Rightarrow> [] | Some t \<Rightarrow> t)
      in if text = []
         then ''Error generating summary: '' @ ''No combined text available for summarization''
         else case docs_info_loop llm (summary_line llm) (files s) (file_upload_order s) of
           Inl e \<Rightarrow> ''Error generating summary: '' @ e
         | Inr docs_info \<Rightarrow>
             (case llm_invoke llm
                     (summary_prompt llm (length docs_info) (join [newline] docs_info)
                        (take 4000 text)) of
                Inl e \<Rightarrow> ''Error generating summary: '' @ e
              | Inr reply \<Rightarrow> strip reply))"

definition default_questions :: "string list" where
  "default_questions =
     [''What are the main topics covered across all documents?'',
      ''How do these documents relate to each other?'',
      ''What are the key findings from this document collection?'',
      ''Which document provides the most detailed information on [topic]?'',
      ''Are there any contradictions between the documents?'',
      ''What common themes appear in multiple documents?'',
      ''What unique insights does each document provide?'',
      ''What conclusions can be drawn from this collection?'']"

definition after_first_dot :: "string \<Rightarrow> string" where
  \<comment> \<open>\<^verbatim>\<open>line.split('.', 1)[-1]\<close> for a line with a dot\<close>
  "after_first_dot line = tl (dropWhile (\<lambda>c. c \<noteq> CHR ''.'') line)"

definition parse_line :: "string \<Rightarrow> string option" where
  \<comment> \<open>the body of the loop of \<^verbatim>\<open>_parse_questions\<close>; the bullet character of the source is
      outside the code points of a text here\<close>
  "parse_line l =
     (let line = strip l
      in if line \<noteq> [] \<and> (is_digit (hd line) \<or> hd line = CHR ''-'')
         then
           let question =
                 (if CHR ''.'' \<in> set line then strip (after_first_dot line)
                  else strip (dropWhile (\<lambda>c. c \<in> set ''- 1234567890'') line))
           in if question \<noteq> [] \<and> (CHR ''?'' \<in> set question \<or> length question > 10)
              then Some (if last question \<noteq> CHR ''?'' then question @ ''?'' else question)
              else None
         else None)"

definition parse_questions :: "string \<Rightarrow> string list" where
  "parse_questions response_text =
     take 8 (List.map_filter parse_line (split_lines (strip response_text)))"

definition generate_collection_questions ::
  "llm_env \<Rightarrow> string \<Rightarrow> MultiFileDocumentState \<Rightarrow> string list" where
  \<comment> \<open>every exception is caught and answered with the eight fixed questions\<close>
  "generate_collection_questions llm summary s =
     (case docs_info_loop llm (file_line llm) (files s) (file_upload_order s) of
        Inl e \<Rightarrow> default_questions
      | Inr docs_info \<Rightarrow>
          (case llm_invoke llm
                  (questions_prompt llm (length docs_info) summary (join [newline] docs_info)) of
             Inl e \<Rightarrow> default_questions
           | Inr reply \<Rightarrow> parse_questions reply))"

definition summary_failed :: "MultiFileDocumentState \<Rightarrow> string \<Rightarrow> MultiFileDocumentState" where
  \<comment> \<open>the outer handler\<close>
  "summary_failed s e =
     s\<lparr>overall_status := ERROR, error_message := Some (''Summarization failed: '' @ e)\<rparr>"

definition generate_multi_document_summary ::
  "llm_env \<Rightarrow> MultiFileDocumentState \<Rightarrow> MultiFileDocumentState" where
  "generate_multi_document_summary llm s =
     (let s1 = s\<lparr>current_step := ''summarize''\<rparr>
      in if overall_status s1 \<noteq> OCR_COMPLETE
         then summary_failed s1 ''OCR processing must be complete before summarization''
         else case llm_init llm of
           Some e \<Rightarrow> summary_failed s1 e
         | None \<Rightarrow>
             let summary = generate_combined_summary llm s1;
                 questions = generate_collection_questions llm summary s1
             in s1\<lparr>combined_summary := Some summary,
                    suggested_questions := questions,
                    document_relationships := [],
                    overall_status := SUMMARIZED,
                    processing_progress :=
                      AList.update ''overall'' 100 (processing_progress s1)\<rparr>)"

section \<open>Retrieval and question answering (src/agents/multi_file_qa.py)\<close>

text \<open>
  The vectoriser, the cosine similarity and the index sort belong to libraries; they are the
  parameter \<open>ir\<close>. \<open>tfidf_fit\<close> is the exception of \<^verbatim>\<open>fit_transform\<close> on the chunk
  contents, if any; the fitted vectors stand for nothing but the contents they were fitted
  on, so \<^verbatim>\<open>chunk_vectors\<close> holds these contents. \<open>similarities\<close> is the flattened result of
  \<^verbatim>\<open>cosine_similarity\<close> for a query, one score for each chunk, or the exception of the
  vectoriser. A score is the exact value of a floating-point number. \<open>argsort\<close> is
  \<^verbatim>\<open>np.argsort\<close>.
\<close>

record ir_env =
  tfidf_fit :: "string list \<Rightarrow> string option"
  similarities :: "string list \<Rightarrow> string \<Rightarrow> rat list result"
  argsort :: "rat list \<Rightarrow> nat list"

record MultiFileQAAgent =
  chunk_vectors :: "string list option"
  chunks_with_metadata :: "combined_chunk list option"

definition MIN_SIMILARITY :: rat where
  \<comment> \<open>the floating-point number that the literal \<^verbatim>\<open>0.1\<close> denotes\<close>
  "MIN_SIMILARITY = 3602879701896397 / 36028797018963968"

definition no_chunks :: "MultiFileQAAgent \<Rightarrow> bool" where
  \<comment> \<open>\<^verbatim>\<open>not self.chunks_with_metadata\<close>\<close>
  "no_chunks agent = (case chunks_with_metadata agent of None \<Rightarrow> True | Some cs \<Rightarrow> cs = [])"

definition prepare_multi_file_index ::
  "ir_env \<Rightarrow> MultiFileQAAgent \<Rightarrow> MultiFileDocumentState \<Rightarrow> MultiFileQAAgent" where
  \<comment> \<open>an exception of the vectoriser is caught after the chunks have been stored\<close>
  "prepare_multi_file_index ir agent s =
     (if combined_chunks s = [] then agent
      else
        let chunk_contents = map cc_content (combined_chunks s);
            agent1 = agent\<lparr>chunks_with_metadata := Some (combined_chunks s)\<rparr>
        in case tfidf_fit ir chunk_contents of
             Some e \<Rightarrow> agent1
           | None \<Rightarrow> agent1\<lparr>chunk_vectors := Some chunk_contents\<rparr>)"

definition slice_to :: "int \<Rightarrow> 'a list \<Rightarrow> 'a list" where
  \<comment> \<open>\<^verbatim>\<open>xs[:k]\<close>\<close>
  "slice_to k xs = (if 0 \<le> k then take (nat k) xs else take (length xs - nat (- k)) xs)"

fun select_relevant ::
  "combined_chunk list \<Rightarrow> rat list \<Rightarrow> nat list \<Rightarrow> (combined_chunk \<times> rat) list option" where
  \<comment> \<open>the loop over \<^verbatim>\<open>top_indices\<close>; \<open>None\<close> where an index is out of range and the
      source raises\<close>
  "select_relevant chunks sims [] = Some []"
| "select_relevant chunks sims (idx # rest) =
     (if idx \<ge> length sims then None
      else if sims ! idx > MIN_SIMILARITY
      then (if idx \<ge> length chunks then None
            else map_option (\<lambda>r. (chunks ! idx, sims ! idx) # r) (select_relevant chunks sims rest))
      else select_relevant chunks sims rest)"

definition sort_by_score :: "(combined_chunk \<times> rat) list \<Rightarrow> (combined_chunk \<times> rat) list" where
  \<comment> \<open>\<^verbatim>\<open>sort(key=..., reverse=True)\<close>: descending, and entries of equal score keep their order\<close>
  "sort_by_score rs = sort_key (\<lambda>r. - snd r) rs"

definition retrieve_relevant_chunks ::
  "ir_env \<Rightarrow> MultiFileQAAgent \<Rightarrow> string \<Rightarrow> int \<Rightarrow> (combined_chunk \<times> rat) list" where
  "retrieve_relevant_chunks ir agent query top_k =
     (case (chunks_with_metadata agent, chunk_vectors agent) of
        (Some chunks, Some vectors) \<Rightarrow>
          if chunks = [] then []
          else (case similarities ir vectors query of
                  Inl e \<Rightarrow> []
                | Inr sims \<Rightarrow>
                    let top_indices = slice_to top_k (rev (argsort ir sims))
                    in (case select_relevant chunks sims top_indices of
                          None \<Rightarrow> []
                        | Some relevant \<Rightarrow> sort_by_score relevant))
      | _ \<Rightarrow> [])"

definition qa_apology :: string where
  "qa_apology = ''I apologize, but I encountered an error while processing your question about the document collection: ''"

definition answer_multi_document_question ::
  "ir_env \<Rightarrow> llm_env \<Rightarrow> MultiFileQAAgent \<Rightarrow> string \<Rightarrow> MultiFileDocumentState
     \<Rightarrow> string \<times> MultiFileQAAgent" where
  \<comment> \<open>the answer, and the agent with the index it may have prepared\<close>
  "answer_multi_document_question ir llm agent question s =
     (let agent1 = (if no_chunks agent then prepare_multi_file_index ir agent s else agent);
          relevant = retrieve_relevant_chunks ir agent1 question 6;
          context_parts = map (\<lambda>(chunk, score).
                                 ''[From: '' @ cc_file_name chunk @ '']'' @ [newline] @ cc_content chunk)
                              relevant;
          context = (if context_parts \<noteq> [] then join [newline, newline] context_parts
                     else ''No specific relevant context found.'');
          relevant_context = (if length context > 4000
                              then take 4000 context @ [newline, newline] @ ''[Context truncated...]''
                              else context)
      in case docs_info_loop llm (file_line llm) (files s) (file_upload_order s) of
           Inl e \<Rightarrow> (qa_apology @ e, agent1)
         | Inr file_names \<Rightarrow>
             (case llm_invoke llm
                     (qa_prompt llm question relevant_context (combined_summary s)
                        (join [newline] file_names) (length file_names) (combined_text s)) of
                Inl e \<Rightarrow> (qa_apology @ e, agent1)
              | Inr reply \<Rightarrow> (strip reply, agent1)))"

definition not_ready_response :: string where
  "not_ready_response =
     ''Documents are not ready for questions yet. Please wait for processing to complete.''"

definition process_multi_document_question ::
  "ir_env \<Rightarrow> llm_env \<Rightarrow> MultiFileDocumentState \<Rightarrow> MultiFileDocumentState" where
  "process_multi_document_question ir llm s =
     (case current_query s of
        None \<Rightarrow> s\<lparr>response := Some ''No question provided.''\<rparr>
      | Some current \<Rightarrow>
          if current = [] then s\<lparr>response := Some ''No question provided.''\<rparr>
          else if overall_status s \<noteq> SUMMARIZED then s\<lparr>response := Some not_ready_response\<rparr>
          else (case llm_init llm of
                  Some e \<Rightarrow>
                    s\<lparr>response := Some (''I apologize, but I encountered an error while processing your question: '' @ e)\<rparr>
                | None \<Rightarrow>
                    let qa_agent0 = \<lparr>chunk_vectors = None, chunks_with_metadata = None\<rparr>;
                        (answer, qa_agent) =
                          answer_multi_document_question ir llm qa_agent0 current s;
                        relevant = retrieve_relevant_chunks ir qa_agent current 5;
                        s1 = s\<lparr>response := Some answer, relevant_chunks := relevant\<rparr>;
                        history = (case chat_history s1 of None \<Rightarrow> [] | Some h \<Rightarrow> h);
                        s2 = s1\<lparr>chat_history :=
                                  Some (history @ [\<lparr>entry_role = User, entry_content = current\<rparr>,
                                                   \<lparr>entry_role = Assistant, entry_content = answer\<rparr>])\<rparr>
                    in if \<not> no_chunks qa_agent
                       then s2\<lparr>relevant_chunks := retrieve_relevant_chunks ir qa_agent current 5\<rparr>
                       else s2))"

section \<open>States and environments for concrete runs\<close>

definition initial_state :: MultiFileDocumentState where
  \<comment> \<open>the values listed in \<^verbatim>\<open>MultiFileDocumentState.__init__\<close>\<close>
  "initial_state =
     \<lparr>uploaded_file_paths = [], overall_status = IDLE, current_step = ''upload'',
      processing_progress = [(''overall'', 0)], error_message = None,
      files = [], file_upload_order = [], total_files = 0, files_completed = 0,
      combined_text = None, combined_chunks = [], combined_summary = None,
      suggested_questions = [], document_relationships = [], topic_analysis = [],
      current_query = None, response = None, chat_history = Some [], relevant_chunks = [],
      max_chunk_size = 1000, overlap_size = 200, temperature = 7 / 10, max_files = 10\<rparr>"

definition np_argsort :: "rat list \<Rightarrow> nat list" where
  \<comment> \<open>an index sort that is ascending and stable, as \<^verbatim>\<open>np.argsort\<close> is on a short array\<close>
  "np_argsort sims = sort_key (\<lambda>i. sims ! i) [0..<length sims]"

definition sample_suffix :: "string \<Rightarrow> string" where
  "sample_suffix p =
     (if CHR ''.'' \<in> set p then CHR ''.'' # rev (takeWhile (\<lambda>c. c \<noteq> CHR ''.'') (rev p)) else [])"

definition sample_splitext :: "string \<Rightarrow> string \<times> string" where
  "sample_splitext p = (take (length p - length (sample_suffix p)) p, sample_suffix p)"

definition sample_os :: os_env where
  \<comment> \<open>two files exist, the second one larger than the limit\<close>
  "sample_os =
     \<lparr>os_mkdir = (\<lambda>d. None),
      os_exists = (\<lambda>p. p = ''in/a.pdf'' \<or> p = ''in/b.pdf''),
      os_stat_size = (\<lambda>p. if p = ''in/b.pdf'' then Inr 60000000 else Inr 1234),
      os_copy2 = (\<lambda>src dst. None),
      os_suffix = sample_suffix,
      os_splitext = sample_splitext,
      os_lower = (\<lambda>x. x),
      os_time = (\<lambda>i j. 1700000000),
      os_uuid4 = (\<lambda>i. ''id-'' @ show_nat i)\<rparr>"

definition sample_ocr :: ocr_env where
  \<comment> \<open>one document yields a text, one yields only symbols, any other cannot be read\<close>
  "sample_ocr =
     \<lparr>extract_from_pdf =
        (\<lambda>p. if p = ''up/a.pdf'' then Inr (''Tea  at 4'', 1)
             else if p = ''up/s.pdf'' then Inr (''@'', 1)
             else Inl ''cannot read''),
      extract_from_image = (\<lambda>p. Inl ''cannot read''),
      extract_from_docx = (\<lambda>p. Inl ''cannot read'')\<rparr>"

definition sample_splitter :: splitter where
  \<comment> \<open>a splitter that returns the text as one chunk\<close>
  "sample_splitter size' overlap text = [text]"

definition sample_file :: "string \<Rightarrow> string \<Rightarrow> string \<Rightarrow> FileInfo" where
  "sample_file fid name path = new_FileInfo fid name path ''pdf'' 1234 1700000000 UPLOADED"

definition sample_llm :: llm_env where
  "sample_llm =
     \<lparr>llm_init = None,
      llm_invoke = (\<lambda>prompt. Inr '' An answer. ''),
      summary_prompt = (\<lambda>n docs sample. ''summarise: '' @ docs @ sample),
      questions_prompt = (\<lambda>n summary docs. ''questions: '' @ summary),
      qa_prompt = (\<lambda>question context summary file_list n text. ''answer: '' @ question @ context),
      py_upper = (\<lambda>x. x),
      py_repr = (\<lambda>x. x)\<rparr>"

definition sample_ir :: ir_env where
  \<comment> \<open>every chunk scores one half for every query\<close>
  "sample_ir =
     \<lparr>tfidf_fit = (\<lambda>contents. None),
      similarities = (\<lambda>contents query. Inr (map (\<lambda>c. 1 / 2) contents)),
      argsort = np_argsort\<rparr>"

definition sample_chunk :: "string \<Rightarrow> string \<Rightarrow> combined_chunk" where
  "sample_chunk fid text =
     \<lparr>cc_content = text, cc_file_id = fid, cc_file_name = fid @ ''.pdf'', cc_file_type = ''pdf'',
      chunk_index = 0, metadata = None\<rparr>"

definition uploaded_state :: "(string \<times> string \<times> string) list \<Rightarrow> MultiFileDocumentState" where
  \<comment> \<open>a state after admission, from the identifier, name and stored path of each file\<close>
  "uploaded_state fs =
     initial_state\<lparr>overall_status := UPLOADED, processing_progress := [(''overall'', 20)],
       files := map (\<lambda>(fid, name, path). (fid, sample_file fid name path)) fs,
       file_upload_order := map fst fs, total_files := length fs\<rparr>"

definition extracted_state :: MultiFileDocumentState where
  \<comment> \<open>a state after the extraction of one readable document\<close>
  "extracted_state =
     process_all_files_ocr sample_ocr sample_splitter
       (uploaded_state [(''f1'', ''a.pdf'', ''up/a.pdf'')])"

definition two_chunk_state :: MultiFileDocumentState where
  \<comment> \<open>a summarised batch whose corpus has two chunks\<close>
  "two_chunk_state =
     initial_state\<lparr>overall_status := SUMMARIZED,
                   combined_chunks := [sample_chunk ''a'' ''tea'', sample_chunk ''b'' ''tea'']\<rparr>"

definition built_agent :: MultiFileQAAgent where
  \<comment> \<open>the agent after it has built its index from \<open>two_chunk_state\<close>\<close>
  "built_agent =
     prepare_multi_file_index sample_ir \<lparr>chunk_vectors = None, chunks_with_metadata = None\<rparr>
       two_chunk_state"

section \<open>Notions used in the statements\<close>

definition attempt :: "ocr_env \<Rightarrow> splitter \<Rightarrow> FileInfo \<Rightarrow> FileInfo" where
  \<comment> \<open>a file after the extraction stage has attempted it\<close>
  "attempt ocr split_text info =
     process_single_file ocr split_text \<lparr>chunk_size = 2000, chunk_overlap = 250\<rparr> info"

definition all_complete :: "FileInfo list \<Rightarrow> bool" where
  "all_complete infos = (\<forall>f\<in>set infos. processing_status f = OCR_COMPLETE)"

definition after_loop :: "ocr_env \<Rightarrow> splitter \<Rightarrow> MultiFileDocumentState \<Rightarrow> MultiFileDocumentState" where
  \<comment> \<open>the state of \<^verbatim>\<open>process_all_files_ocr\<close> when its loop has ended\<close>
  "after_loop ocr sp s =
     (let r = ocr_loop ocr sp \<lparr>chunk_size = 2000, chunk_overlap = 250\<rparr> (length (files s)) 0
                (files s) (processing_progress s)
      in s\<lparr>overall_status := PROCESSING, current_step := ''ocr'', max_chunk_size := 2000,
            overlap_size := 250, files := fst r, processing_progress := snd r\<rparr>)"

fun admitted :: "os_env \<Rightarrow> nat \<Rightarrow> (string \<times> string) list \<Rightarrow> FileInfo list" where
  \<comment> \<open>the records of the submitted files that pass validation and storage, in their order;
      \<open>i\<close> is the number of the first file\<close>
  "admitted os i [] = []"
| "admitted os i ((path, name) # rest) =
     (case upload_one os i path name of
        None \<Rightarrow> admitted os (Suc i) rest
      | Some info \<Rightarrow> info # admitted os (Suc i) rest)"

definition history_of :: "MultiFileDocumentState \<Rightarrow> chat_entry list" where
  \<comment> \<open>the chat history, empty for a state without the key\<close>
  "history_of s = (case chat_history s of None \<Rightarrow> [] | Some h \<Rightarrow> h)"

definition qa_answer :: "ir_env \<Rightarrow> llm_env \<Rightarrow> string \<Rightarrow> MultiFileDocumentState \<Rightarrow> string" where
  \<comment> \<open>what a fresh agent answers\<close>
  "qa_answer ir llm q s =
     fst (answer_multi_document_question ir llm
            \<lparr>chunk_vectors = None, chunks_with_metadata = None\<rparr> q s)"

section \<open>Normal form of a cleaned text\<close>

fun ws_norm :: "string \<Rightarrow> bool" where
  \<comment> \<open>every whitespace character is a blank, and no two of them are adjacent\<close>
  "ws_norm [] = True"
| "ws_norm (c # cs) =
     ((is_space c \<longrightarrow> c = CHR '' '' \<and> (cs = [] \<or> \<not> is_space (hd cs))) \<and> ws_norm cs)"

fun has_isolated :: "char \<Rightarrow> bool \<Rightarrow> string \<Rightarrow> bool" where
  \<comment> \<open>the text has an occurrence of \<open>t\<close> between two word boundaries\<close>
  "has_isolated t p [] = False"
| "has_isolated t p (c # cs) =
     ((c = t \<and> \<not> p \<and> at_boundary cs) \<or> has_isolated t (is_word c) cs)"

definition trimmed :: "string \<Rightarrow> bool" where
  "trimmed s = (s = [] \<or> (\<not> is_space (hd s) \<and> \<not> is_space (last s)))"

definition normal_text :: "string \<Rightarrow> bool" where
  "normal_text s =
     (ws_norm s \<and> (\<forall>c\<in>set s. is_kept c) \<and> trimmed s
      \<and> \<not> has_isolated CHR ''0'' False s \<and> \<not> has_isolated CHR ''1'' False s)"

section \<open>Idempotence of the text cleaning\<close>

lemma space_not_word: "is_space c \<Longrightarrow> \<not> is_word c"
  unfolding is_space_def is_word_def Let_def by auto

lemma is_space_blank [simp]: "is_space CHR '' ''" by (simp add: is_space_def)

lemma at_boundary_simps [simp]:
  "at_boundary [] = True" "at_boundary (c # cs) = (\<not> is_word c)"
  by (simp_all add: at_boundary_def)

lemma rstrip_Nil [simp]: "rstrip [] = []" by (simp add: rstrip_def)

lemma rstrip_all_space: "\<forall>x\<in>set s. is_space x \<Longrightarrow> rstrip s = []"
  by (simp add: rstrip_def)

lemma rstrip_Cons:
  "rstrip (c # cs) =
     (if \<forall>x\<in>set cs. is_space x then (if is_space c then [] else [c]) else c # rstrip cs)"
proof (cases "\<forall>x\<in>set cs. is_space x")
  case True
  then have "dropWhile is_space (rev cs @ [c]) = dropWhile is_space [c]"
    by (intro dropWhile_append2) simp
  with True show ?thesis by (simp add: rstrip_def)
next
  case False
  then obtain x where "x \<in> set (rev cs)" "\<not> is_space x" by auto
  then have "dropWhile is_space (rev cs @ [c]) = dropWhile is_space (rev cs) @ [c]"
    by (rule dropWhile_append1)
  with False show ?thesis by (simp add: rstrip_def)
qed

lemma rstrip_empty_iff: "rstrip s = [] \<longleftrightarrow> (\<forall>x\<in>set s. is_space x)"
  by (induction s) (auto simp: rstrip_Cons)

lemma hd_rstrip: "rstrip s \<noteq> [] \<Longrightarrow> hd (rstrip s) = hd s"
  by (cases s) (auto simp: rstrip_Cons split: if_splits)

lemma set_rstrip: "set (rstrip s) \<subseteq> set s"
  unfolding rstrip_def using set_dropWhileD[of _ is_space "rev s"] by auto

lemma set_lstrip: "set (lstrip s) \<subseteq> set s"
  unfolding lstrip_def using set_dropWhileD[of _ is_space s] by auto

lemma sub_whitespace_Nil_iff [simp]: "sub_whitespace s = [] \<longleftrightarrow> s = []"
  by (induction s rule: sub_whitespace.induct) auto

lemma hd_sub_whitespace:
  "s \<noteq> [] \<Longrightarrow> hd (sub_whitespace s) = (if is_space (hd s) then CHR '' '' else hd s)"
  by (induction s rule: sub_whitespace.induct) auto

lemma ws_norm_sub_whitespace: "ws_norm (sub_whitespace s)"
  by (induction s rule: sub_whitespace.induct) (auto simp: hd_sub_whitespace)

lemma sub_whitespace_id: "ws_norm s \<Longrightarrow> sub_whitespace s = s"
  by (induction s rule: sub_whitespace.induct) auto

lemma ws_norm_lstrip: "ws_norm s \<Longrightarrow> ws_norm (lstrip s)"
  unfolding lstrip_def by (induction s) auto

lemma ws_norm_rstrip: "ws_norm s \<Longrightarrow> ws_norm (rstrip s)"
proof (induction s)
  case (Cons c cs)
  show ?case
  proof (cases "rstrip cs = []")
    case True
    then show ?thesis using Cons.prems by (auto simp: rstrip_Cons rstrip_empty_iff)
  next
    case False
    then have "hd (rstrip cs) = hd cs" by (rule hd_rstrip)
    with False Cons show ?thesis by (auto simp: rstrip_Cons rstrip_empty_iff)
  qed
qed simp

lemma sub_isolated_id: "\<not> has_isolated t p s \<Longrightarrow> sub_isolated t r p s = s"
  by (induction s arbitrary: p) auto

lemma at_boundary_sub_isolated:
  "is_word t \<Longrightarrow> is_word r \<Longrightarrow> at_boundary (sub_isolated t r p s) = at_boundary s"
  by (cases s) auto

lemma has_isolated_sub_other:
  assumes "is_word t'" "is_word r'" "r' \<noteq> t"
  shows "has_isolated t p (sub_isolated t' r' p s) \<Longrightarrow> has_isolated t p s"
  using assms by (induction s arbitrary: p) (auto simp: at_boundary_sub_isolated split: if_splits)

lemma no_isolated_sub_same:
  assumes "is_word t" "is_word r" "r \<noteq> t"
  shows "\<not> has_isolated t p (sub_isolated t r p s)"
  using assms by (induction s arbitrary: p) (auto simp: at_boundary_sub_isolated)

lemma has_isolated_weaken: "has_isolated t p s \<Longrightarrow> has_isolated t False s"
  by (cases s) auto

lemma at_boundary_sub_whitespace: "at_boundary (sub_whitespace s) = at_boundary s"
  by (induction s rule: sub_whitespace.induct) (auto dest: space_not_word simp: is_word_def)

lemma word_not_blank: "is_word t \<Longrightarrow> t \<noteq> CHR '' ''"
  using space_not_word by force

lemma has_isolated_sub_whitespace:
  assumes "is_word t"
  shows "has_isolated t p (sub_whitespace s) \<Longrightarrow> has_isolated t p s"
proof (induction s arbitrary: p rule: sub_whitespace.induct)
  case 1
  then show ?case by simp
next
  case (2 c)
  then show ?case using word_not_blank[OF assms] by (auto split: if_splits)
next
  case (3 c d cs)
  then show ?case
    using at_boundary_sub_whitespace[of "d # cs"] word_not_blank[OF assms]
    by (auto split: if_splits dest: has_isolated_weaken space_not_word simp del: sub_whitespace.simps(3)
        simp: sub_whitespace.simps(3)[of c d cs])
qed

lemma has_isolated_lstrip: "has_isolated t False (lstrip s) \<Longrightarrow> has_isolated t False s"
  unfolding lstrip_def by (induction s) (auto dest: space_not_word split: if_splits)

lemma at_boundary_all_space: "\<forall>x\<in>set s. is_space x \<Longrightarrow> at_boundary s"
  by (cases s) (auto dest: space_not_word)

lemma at_boundary_rstrip: "at_boundary (rstrip s) \<Longrightarrow> at_boundary s"
  by (cases s) (auto simp: rstrip_Cons at_boundary_all_space dest: space_not_word split: if_splits)

lemma has_isolated_rstrip: "has_isolated t p (rstrip s) \<Longrightarrow> has_isolated t p s"
proof (induction s arbitrary: p)
  case (Cons c cs)
  show ?case
  proof (cases "\<forall>x\<in>set cs. is_space x")
    case True
    with Cons.prems show ?thesis
      by (auto simp: rstrip_Cons at_boundary_all_space split: if_splits)
  next
    case False
    with Cons.prems Cons.IH show ?thesis
      by (auto simp: rstrip_Cons dest: at_boundary_rstrip)
  qed
qed simp

lemma trimmed_strip: "trimmed (strip s)"
proof (cases "strip s = []")
  case False
  then have ne: "rstrip (lstrip s) \<noteq> []" by (simp add: strip_def)
  then have l: "lstrip s \<noteq> []" by auto
  have "hd (rstrip (lstrip s)) = hd (lstrip s)" using ne by (rule hd_rstrip)
  moreover have "\<not> is_space (hd (lstrip s))" using l unfolding lstrip_def by (rule hd_dropWhile)
  moreover have "\<not> is_space (last (rstrip (lstrip s)))"
    using ne hd_dropWhile[of is_space "rev (lstrip s)"] unfolding rstrip_def
    by (simp add: last_rev)
  ultimately show ?thesis using ne by (simp add: trimmed_def strip_def)
qed (simp add: trimmed_def)

lemma strip_id: "trimmed s \<Longrightarrow> strip s = s"
proof (cases "s = []")
  case False
  assume "trimmed s"
  with False have h: "\<not> is_space (hd s)" and l: "\<not> is_space (last s)" by (auto simp: trimmed_def)
  from False h have "lstrip s = s" unfolding lstrip_def by (cases s) auto
  moreover from False l have "rstrip s = s" unfolding rstrip_def
    by (cases "rev s") (auto simp: hd_rev[symmetric])
  ultimately show ?thesis by (simp add: strip_def)
qed (simp add: strip_def lstrip_def)

lemma is_kept_blank [simp]: "is_kept CHR '' ''"
  by (simp add: is_kept_def)

lemma kept_sub_special: "\<forall>c\<in>set (sub_special s). is_kept c"
  by (auto simp: sub_special_def)

lemma sub_special_id: "\<forall>c\<in>set s. is_kept c \<Longrightarrow> sub_special s = s"
  by (simp add: sub_special_def map_idI)

lemma set_sub_isolated: "set (sub_isolated t r p s) \<subseteq> insert r (set s)"
  by (induction s arbitrary: p) auto

lemma set_sub_whitespace: "set (sub_whitespace s) \<subseteq> insert CHR '' '' (set s)"
  by (induction s rule: sub_whitespace.induct) auto

lemma word_digits [simp]:
  "is_word CHR ''0''" "is_word CHR ''1''" "is_word CHR ''O''" "is_word CHR ''I''"
  by (simp_all add: is_word_def Let_def)

lemma kept_fix: 
  assumes "\<forall>c\<in>set s. is_kept c"
  shows "\<forall>c\<in>set (fix_common_ocr_errors s). is_kept c"
proof
  fix c assume "c \<in> set (fix_common_ocr_errors s)"
  then have "c = CHR '' '' \<or> c \<in> set (sub_isolated CHR ''1'' CHR ''I'' False (sub_isolated CHR ''0'' CHR ''O'' False s))"
    unfolding fix_common_ocr_errors_def using set_sub_whitespace by blast
  then have "c = CHR '' '' \<or> c = CHR ''I'' \<or> c \<in> set (sub_isolated CHR ''0'' CHR ''O'' False s)"
    using set_sub_isolated by blast
  then have "c = CHR '' '' \<or> c = CHR ''I'' \<or> c = CHR ''O'' \<or> c \<in> set s"
    using set_sub_isolated by blast
  moreover have "is_kept CHR ''I''" "is_kept CHR ''O''"
    by (simp_all add: is_kept_def)
  ultimately show "is_kept c" using assms is_kept_blank by blast
qed

lemma no_isolated_fix:
  "\<not> has_isolated CHR ''0'' False (fix_common_ocr_errors s)"
  "\<not> has_isolated CHR ''1'' False (fix_common_ocr_errors s)"
proof -
  let ?a = "sub_isolated CHR ''0'' CHR ''O'' False s"
  have "\<not> has_isolated CHR ''0'' False ?a" by (rule no_isolated_sub_same) simp_all
  then have "\<not> has_isolated CHR ''0'' False (sub_isolated CHR ''1'' CHR ''I'' False ?a)"
    using has_isolated_sub_other[of "CHR ''1''" "CHR ''I''" "CHR ''0''" False ?a] by auto
  then show "\<not> has_isolated CHR ''0'' False (fix_common_ocr_errors s)"
    unfolding fix_common_ocr_errors_def using has_isolated_sub_whitespace[of "CHR ''0''"] by auto
  have "\<not> has_isolated CHR ''1'' False (sub_isolated CHR ''1'' CHR ''I'' False ?a)"
    by (rule no_isolated_sub_same) simp_all
  then show "\<not> has_isolated CHR ''1'' False (fix_common_ocr_errors s)"
    unfolding fix_common_ocr_errors_def using has_isolated_sub_whitespace[of "CHR ''1''"] by auto
qed


lemma normal_clean_text: "normal_text (clean_text x)"
proof (cases "x = []")
  case True
  then show ?thesis by (simp add: clean_text_def normal_text_def trimmed_def)
next
  case False
  let ?z = "fix_common_ocr_errors (sub_special (sub_whitespace x))"
  have y: "clean_text x = strip ?z" using False by (simp add: clean_text_def)
  have "ws_norm ?z" unfolding fix_common_ocr_errors_def by (rule ws_norm_sub_whitespace)
  then have 1: "ws_norm (strip ?z)" unfolding strip_def by (intro ws_norm_rstrip ws_norm_lstrip)
  have "\<forall>c\<in>set ?z. is_kept c" by (intro kept_fix kept_sub_special)
  then have 2: "\<forall>c\<in>set (strip ?z). is_kept c"
    unfolding strip_def using set_rstrip set_lstrip by blast
  have 3: "\<not> has_isolated CHR ''0'' False (strip ?z)"
    unfolding strip_def using no_isolated_fix(1)[of "sub_special (sub_whitespace x)"]
    by (meson has_isolated_rstrip has_isolated_lstrip)
  have 4: "\<not> has_isolated CHR ''1'' False (strip ?z)"
    unfolding strip_def using no_isolated_fix(2)[of "sub_special (sub_whitespace x)"]
    by (meson has_isolated_rstrip has_isolated_lstrip)
  show ?thesis unfolding y normal_text_def using 1 2 3 4 trimmed_strip by simp
qed

lemma clean_text_normal: "normal_text s \<Longrightarrow> clean_text s = s"
  by (simp add: clean_text_def normal_text_def sub_whitespace_id sub_special_id
      fix_common_ocr_errors_def sub_isolated_id strip_id)

text \<open>
  C9. Cleaning a text twice gives the same result as cleaning it once: for every text \<open>x\<close>,
  \<open>clean_text (clean_text x) = clean_text x\<close>.
\<close>

theorem clean_text_idempotent: "clean_text (clean_text x) = clean_text x"
  by (rule clean_text_normal) (rule normal_clean_text)


section \<open>The extraction stage and its completion gate\<close>

lemma ocr_loop_files:
  "fst (ocr_loop ocr sp tp n k fs prog) =
     map (\<lambda>(fid, info). (fid, process_single_file ocr sp tp info)) fs"
  by (induction fs arbitrary: k prog) (auto simp: Let_def case_prod_beta)

lemma map_snd_ocr_loop:
  "map snd (fst (ocr_loop ocr sp tp n k fs prog)) =
     map (process_single_file ocr sp tp) (map snd fs)"
  by (simp add: ocr_loop_files split_def comp_def)

lemma length_filter_eq: "length (filter P xs) = length xs \<longleftrightarrow> (\<forall>x\<in>set xs. P x)"
proof -
  have "length (filter P xs) + length (filter (\<lambda>x. \<not> P x) xs) = length xs"
    by (rule sum_length_filter_compl)
  then have "length (filter P xs) = length xs \<longleftrightarrow> filter (\<lambda>x. \<not> P x) xs = []"
    by auto
  then show ?thesis by (simp add: filter_empty_conv)
qed

lemma files_after_loop:
  "map snd (files (after_loop ocr sp s)) = map (attempt ocr sp) (map snd (files s))"
  by (simp add: after_loop_def Let_def map_snd_ocr_loop attempt_def del: map_map)

lemma length_files_after_loop: "length (files (after_loop ocr sp s)) = length (files s)"
  by (simp add: after_loop_def Let_def ocr_loop_files)

lemma config_after_loop:
  "max_chunk_size (after_loop ocr sp s) = 2000" "overlap_size (after_loop ocr sp s) = 250"
  by (simp_all add: after_loop_def Let_def)

lemma process_all_files_ocr_empty:
  "files s = [] \<Longrightarrow>
   process_all_files_ocr ocr sp s =
     ocr_failed (s\<lparr>overall_status := PROCESSING, current_step := ''ocr''\<rparr>) ''No files to process''"
  by (simp add: process_all_files_ocr_def Let_def)

lemma process_all_files_ocr_gate:
  assumes "files s \<noteq> []"
  shows "process_all_files_ocr ocr sp s =
     (let s3 = after_loop ocr sp s; infos = map snd (files s3)
      in if \<not> all_complete infos then ocr_failed s3 (failed_message infos)
         else s3\<lparr>combined_text := Some (join [newline, newline] (List.map_filter file_section infos)),
                 combined_chunks := concat (map file_combined_chunks infos),
                 files_completed := length infos,
                 overall_status := OCR_COMPLETE,
                 processing_progress := AList.update ''overall'' 80 (processing_progress s3)\<rparr>)"
proof -
  define s3 where "s3 = after_loop ocr sp s"
  define infos where "infos = map snd (files s3)"
  define good where "good = filter (\<lambda>f. processing_status f = OCR_COMPLETE) infos"
  have len: "length infos = length (files s)"
    by (simp add: infos_def s3_def length_files_after_loop)
  have gate: "length good \<noteq> length (files s) \<longleftrightarrow> \<not> all_complete infos"
    unfolding good_def all_complete_def len[symmetric] length_filter_eq ..
  have good: "all_complete infos \<Longrightarrow> good = infos"
    by (simp add: good_def all_complete_def)
  have "process_all_files_ocr ocr sp s =
      (if length good \<noteq> length (files s) then ocr_failed s3 (failed_message infos)
       else s3\<lparr>combined_text := Some (join [newline, newline] (List.map_filter file_section good)),
                 combined_chunks := concat (map file_combined_chunks good),
                 files_completed := length good,
                 overall_status := OCR_COMPLETE,
                 processing_progress := AList.update ''overall'' 80 (processing_progress s3)\<rparr>)"
    using assms unfolding good_def infos_def s3_def
    by (simp add: process_all_files_ocr_def after_loop_def Let_def case_prod_beta del: map_map)
  then show ?thesis
    unfolding gate Let_def s3_def[symmetric] infos_def[symmetric] using good by auto
qed

lemma process_single_file_keeps:
  "file_name (process_single_file ocr sp tp f) = file_name f"
  "file_id (process_single_file ocr sp tp f) = file_id f"
  "file_type (process_single_file ocr sp tp f) = file_type f"
  by (simp_all add: process_single_file_def Let_def file_failed_def split: sum.splits prod.splits)

lemma failed_names:
  "map file_name (filter (\<lambda>f. processing_status f \<noteq> OCR_COMPLETE) (map (attempt ocr sp) xs)) =
   map file_name (filter (\<lambda>f. processing_status (attempt ocr sp f) \<noteq> OCR_COMPLETE) xs)"
  by (induction xs) (simp_all add: attempt_def process_single_file_keeps)

lemma process_single_file_complete:
  assumes "processing_status (process_single_file ocr sp tp f) = OCR_COMPLETE"
  shows "\<exists>raw conf. extract_text ocr (file_path f) (file_type f) = Inr (raw, conf) \<and> strip raw \<noteq> []
           \<and> processed_text (process_single_file ocr sp tp f) = Some (clean_text raw)
           \<and> chunk_metadata (process_single_file ocr sp tp f) = create_chunks sp tp (clean_text raw)
           \<and> document_chunks (process_single_file ocr sp tp f)
               = map content (create_chunks sp tp (clean_text raw))"
  using assms
  by (auto simp: process_single_file_def Let_def file_failed_def
      split: sum.splits prod.splits if_splits)



text \<open>
  C1. Let a state have at least one file, and let at least one of its files not have the
  status \<open>OCR_COMPLETE\<close> after the extraction stage has attempted every file. Then
  \<open>process_all_files_ocr\<close> leaves the attempted files in the state, sets the status of the
  batch to \<open>ERROR\<close>, and its error message ends with the names of exactly the files whose
  attempt failed, in the order of the files and separated by commas.
\<close>

theorem completion_gate_fails:
  assumes "files s \<noteq> []"
    and "\<not> all_complete (map (attempt ocr sp) (map snd (files s)))"
  shows "map snd (files (process_all_files_ocr ocr sp s)) = map (attempt ocr sp) (map snd (files s)) \<and>
         overall_status (process_all_files_ocr ocr sp s) = ERROR \<and>
         error_message (process_all_files_ocr ocr sp s) =
           Some (''OCR processing failed: All files must be successfully processed. Failed files: '' @
                 join '', '' (map file_name
                   (filter (\<lambda>f. processing_status (attempt ocr sp f) \<noteq> OCR_COMPLETE)
                      (map snd (files s)))))"
  using assms
  by (simp add: process_all_files_ocr_gate files_after_loop ocr_failed_def failed_message_def
      Let_def failed_names del: map_map)

theorem completion_gate_fails_witness:
  "files (uploaded_state [(''f1'', ''a.pdf'', ''up/a.pdf''), (''f2'', ''c.pdf'', ''up/c.pdf'')]) \<noteq> [] \<and>
   \<not> all_complete (map (attempt sample_ocr sample_splitter)
        (map snd (files (uploaded_state
           [(''f1'', ''a.pdf'', ''up/a.pdf''), (''f2'', ''c.pdf'', ''up/c.pdf'')])))) \<and>
   overall_status (process_all_files_ocr sample_ocr sample_splitter
      (uploaded_state [(''f1'', ''a.pdf'', ''up/a.pdf''), (''f2'', ''c.pdf'', ''up/c.pdf'')])) = ERROR \<and>
   error_message (process_all_files_ocr sample_ocr sample_splitter
      (uploaded_state [(''f1'', ''a.pdf'', ''up/a.pdf''), (''f2'', ''c.pdf'', ''up/c.pdf'')])) =
     Some ''OCR processing failed: All files must be successfully processed. Failed files: c.pdf''"
proof -
  let ?s = "uploaded_state [(''f1'', ''a.pdf'', ''up/a.pdf''), (''f2'', ''c.pdf'', ''up/c.pdf'')]"
  have h1: "files ?s \<noteq> []" by code_simp
  have h2: "\<not> all_complete (map (attempt sample_ocr sample_splitter) (map snd (files ?s)))"
    by code_simp
  have n: "join '', '' (map file_name
             (filter (\<lambda>f. processing_status (attempt sample_ocr sample_splitter f) \<noteq> OCR_COMPLETE)
                (map snd (files ?s)))) = ''c.pdf''"
    by code_simp
  from completion_gate_fails[OF h1 h2] show ?thesis using h1 h2 n by simp
qed





text \<open>
  C10 (amended). For every state with at least one file, \<open>process_all_files_ocr\<close> sets
  \<open>max_chunk_size\<close> to 2000 and \<open>overlap_size\<close> to 250, and every file is processed by a
  text processor built with these two values, whatever the state held before; the values
  1000 and 200 of the configuration are not used. A state without files leaves the stage
  with the chunking configuration it came with.
\<close>

theorem chunking_configuration:
  assumes "files s \<noteq> []"
  shows "max_chunk_size (process_all_files_ocr ocr sp s) = 2000 \<and>
         overlap_size (process_all_files_ocr ocr sp s) = 250 \<and>
         map snd (files (process_all_files_ocr ocr sp s)) =
           map (process_single_file ocr sp \<lparr>chunk_size = 2000, chunk_overlap = 250\<rparr>)
             (map snd (files s))"
  using assms config_after_loop[of ocr sp s] files_after_loop[of ocr sp s]
  by (simp add: process_all_files_ocr_gate Let_def ocr_failed_def attempt_def del: map_map)

theorem chunking_configuration_witness:
  "files (uploaded_state [(''f1'', ''a.pdf'', ''up/a.pdf'')]) \<noteq> [] \<and>
   max_chunk_size (uploaded_state [(''f1'', ''a.pdf'', ''up/a.pdf'')]) = MAX_CHUNK_SIZE \<and>
   max_chunk_size (process_all_files_ocr sample_ocr sample_splitter
      (uploaded_state [(''f1'', ''a.pdf'', ''up/a.pdf'')])) = 2000 \<and>
   overlap_size (process_all_files_ocr sample_ocr sample_splitter
      (uploaded_state [(''f1'', ''a.pdf'', ''up/a.pdf'')])) = 250"
proof -
  let ?s = "uploaded_state [(''f1'', ''a.pdf'', ''up/a.pdf'')]"
  have h1: "files ?s \<noteq> []" by code_simp
  have m: "max_chunk_size ?s = MAX_CHUNK_SIZE" by code_simp
  from chunking_configuration[OF h1, of sample_ocr sample_splitter] show ?thesis
    using h1 m by simp
qed

theorem chunking_configuration_counterexample:
  "max_chunk_size (process_all_files_ocr sample_ocr sample_splitter initial_state) = 1000 \<and>
   overlap_size (process_all_files_ocr sample_ocr sample_splitter initial_state) = 200 \<and>
   overall_status (process_all_files_ocr sample_ocr sample_splitter initial_state) = ERROR"
  by code_simp


section \<open>Admission of a batch\<close>

lemma upload_one_Some:
  assumes "upload_one os i path name = Some info"
  shows "file_id info = os_uuid4 os i \<and> file_name info = name \<and> processing_status info = UPLOADED
         \<and> validate_file os path MAX_FILE_SIZE ALLOWED_EXTENSIONS = Inr Valid"
  using assms
  by (auto simp: upload_one_def Let_def new_FileInfo_def split: sum.splits if_splits prod.splits)

lemma upload_one_invalid:
  "validate_file os path MAX_FILE_SIZE ALLOWED_EXTENSIONS \<noteq> Inr Valid \<Longrightarrow>
   upload_one os i path name = None"
  by (auto simp: upload_one_def Let_def split: sum.splits)

lemma update_fresh: "k \<notin> fst ` set al \<Longrightarrow> AList.update k v al = al @ [(k, v)]"
  by (induction al) auto

lemma admitted_iff:
  "info \<in> set (admitted os i ups) \<longleftrightarrow>
     (\<exists>j<length ups. upload_one os (i + j) (fst (ups ! j)) (snd (ups ! j)) = Some info)"
proof (induction ups arbitrary: i)
  case (Cons a ups)
  obtain path name where a: "a = (path, name)" by (cases a)
  have ex: "(\<exists>j<length (a # ups).
               upload_one os (i + j) (fst ((a # ups) ! j)) (snd ((a # ups) ! j)) = Some info)
      \<longleftrightarrow> upload_one os i path name = Some info
          \<or> (\<exists>j<length ups. upload_one os (Suc i + j) (fst (ups ! j)) (snd (ups ! j)) = Some info)"
    unfolding a by (auto simp: less_Suc_eq_0_disj)
  show ?case unfolding ex using Cons.IH[of "Suc i"] a by (auto split: option.splits)
qed simp

lemma upload_loop_eq:
  assumes "distinct (map (os_uuid4 os) [i..<i + length ups])"
    and "fst ` set fs \<inter> os_uuid4 os ` {i..<i + length ups} = {}"
  shows "upload_loop os i ups (fs, ord) =
           (fs @ map (\<lambda>info. (file_id info, info)) (admitted os i ups),
            ord @ map file_id (admitted os i ups))"
  using assms
proof (induction ups arbitrary: i fs ord)
  case (Cons a ups)
  obtain path name where a: "a = (path, name)" by (cases a)
  have "i < i + length (a # ups)" by simp
  from upt_conv_Cons[OF this]
  have up: "[i..<i + length (a # ups)] = i # [Suc i..<Suc i + length ups]" by simp
  have d: "distinct (map (os_uuid4 os) [Suc i..<Suc i + length ups])"
    and ni: "os_uuid4 os i \<notin> os_uuid4 os ` {Suc i..<Suc i + length ups}"
    using Cons.prems(1) unfolding up by auto
  have sub: "os_uuid4 os ` {Suc i..<Suc i + length ups} \<subseteq> os_uuid4 os ` {i..<i + length (a # ups)}"
    by (rule image_mono) auto
  have "os_uuid4 os i \<in> os_uuid4 os ` {i..<i + length (a # ups)}" by (rule imageI) simp
  then have fresh: "os_uuid4 os i \<notin> fst ` set fs" using Cons.prems(2) by blast
  show ?case
  proof (cases "upload_one os i path name")
    case None
    have "fst ` set fs \<inter> os_uuid4 os ` {Suc i..<Suc i + length ups} = {}"
      using Cons.prems(2) sub by blast
    from Cons.IH[OF d this] None a show ?thesis by simp
  next
    case (Some info)
    then have id: "file_id info = os_uuid4 os i" by (simp add: upload_one_Some)
    have "fst ` set (fs @ [(file_id info, info)]) \<inter> os_uuid4 os ` {Suc i..<Suc i + length ups} = {}"
      using Cons.prems(2) sub ni id by auto
    from Cons.IH[OF d this] Some a fresh id show ?thesis by (simp add: update_fresh)
  qed
qed simp

lemma admitted_excludes:
  assumes "distinct (map (os_uuid4 os) [0..<length ups])" and "j < length ups"
    and "upload_one os j (fst (ups ! j)) (snd (ups ! j)) = None"
  shows "os_uuid4 os j \<notin> set (map file_id (admitted os 0 ups))"
proof
  assume "os_uuid4 os j \<in> set (map file_id (admitted os 0 ups))"
  then obtain info where i: "info \<in> set (admitted os 0 ups)" and e: "file_id info = os_uuid4 os j"
    by auto
  from i obtain k where k: "k < length ups" "upload_one os k (fst (ups ! k)) (snd (ups ! k)) = Some info"
    unfolding admitted_iff by auto
  then have "file_id info = os_uuid4 os k" by (simp add: upload_one_Some)
  with e have "os_uuid4 os j = os_uuid4 os k" by simp
  moreover have "inj_on (os_uuid4 os) {0..<length ups}"
    using assms(1) by (simp add: distinct_map)
  ultimately have "j = k" using assms(2) k(1) by (auto dest: inj_onD)
  with k(2) assms(3) show False by simp
qed

text \<open>
  C4. Let a state that is not summarised carry a non-empty submission, let the two
  directories of the file handler exist or be creatable, and let the generated identifiers
  be different from each other. Then \<open>upload_multiple_files\<close> admits exactly the files that
  pass validation and storage, in their order: a file that fails validation is left out,
  and a file that passes is admitted whatever happens to the others. The status of the
  batch is \<open>ERROR\<close> exactly when no file was admitted; when at least one file was admitted
  the status is \<open>UPLOADED\<close> and the overall progress is 20.
\<close>

theorem upload_admission:
  assumes "overall_status s \<noteq> SUMMARIZED"
    and "FileHandler_init os UPLOAD_DIR PROCESSED_DIR = Inr ()"
    and "distinct (map (os_uuid4 os) [0..<length (uploaded_file_paths s)])"
    and "uploaded_file_paths s \<noteq> []"
  shows "map snd (files (upload_multiple_files os s)) = admitted os 0 (uploaded_file_paths s) \<and>
         file_upload_order (upload_multiple_files os s) =
           map file_id (admitted os 0 (uploaded_file_paths s)) \<and>
         (overall_status (upload_multiple_files os s) = ERROR
            \<longleftrightarrow> admitted os 0 (uploaded_file_paths s) = []) \<and>
         (admitted os 0 (uploaded_file_paths s) \<noteq> [] \<longrightarrow>
            overall_status (upload_multiple_files os s) = UPLOADED \<and>
            processing_progress (upload_multiple_files os s) = [(''overall'', 20)]) \<and>
         (\<forall>j<length (uploaded_file_paths s).
            validate_file os (fst (uploaded_file_paths s ! j)) MAX_FILE_SIZE ALLOWED_EXTENSIONS
              \<noteq> Inr Valid \<longrightarrow>
            os_uuid4 os j \<notin> set (file_upload_order (upload_multiple_files os s))) \<and>
         (\<forall>j<length (uploaded_file_paths s). \<forall>info.
            upload_one os j (fst (uploaded_file_paths s ! j)) (snd (uploaded_file_paths s ! j))
              = Some info \<longrightarrow>
            (os_uuid4 os j, info) \<in> set (files (upload_multiple_files os s)))"
proof -
  let ?ups = "uploaded_file_paths s"
  let ?adm = "admitted os 0 ?ups"
  have loop: "upload_loop os 0 ?ups ([], []) =
      (map (\<lambda>info. (file_id info, info)) ?adm, map file_id ?adm)"
    using upload_loop_eq[of os 0 ?ups "[]" "[]"] assms(3) by simp
  have r: "upload_multiple_files os s =
      (let s3 = s\<lparr>overall_status := UPLOADING, current_step := ''upload'',
                   total_files := length ?ups, files_completed := 0,
                   files := map (\<lambda>info. (file_id info, info)) ?adm,
                   file_upload_order := map file_id ?adm\<rparr>
       in if ?adm = [] then upload_failed s3 ''No files were successfully uploaded''
          else s3\<lparr>overall_status := UPLOADED, processing_progress := [(''overall'', 20)]\<rparr>)"
    using assms(1,2,4) loop by (simp add: upload_multiple_files_def Let_def)
  have 1: "map snd (files (upload_multiple_files os s)) = ?adm"
    and 2: "file_upload_order (upload_multiple_files os s) = map file_id ?adm"
    and 3: "overall_status (upload_multiple_files os s) = ERROR \<longleftrightarrow> ?adm = []"
    and 4: "?adm \<noteq> [] \<longrightarrow> overall_status (upload_multiple_files os s) = UPLOADED \<and>
            processing_progress (upload_multiple_files os s) = [(''overall'', 20)]"
    and 5: "files (upload_multiple_files os s) = map (\<lambda>info. (file_id info, info)) ?adm"
    unfolding r by (simp_all add: Let_def upload_failed_def comp_def)
  have 6: "\<forall>j<length ?ups.
            validate_file os (fst (?ups ! j)) MAX_FILE_SIZE ALLOWED_EXTENSIONS \<noteq> Inr Valid \<longrightarrow>
            os_uuid4 os j \<notin> set (file_upload_order (upload_multiple_files os s))"
    unfolding 2 using admitted_excludes[OF assms(3)] upload_one_invalid by blast
  have 7: "\<forall>j<length ?ups. \<forall>info.
            upload_one os j (fst (?ups ! j)) (snd (?ups ! j)) = Some info \<longrightarrow>
            (os_uuid4 os j, info) \<in> set (files (upload_multiple_files os s))"
  proof (intro allI impI)
    fix j info assume j: "j < length ?ups"
      and u: "upload_one os j (fst (?ups ! j)) (snd (?ups ! j)) = Some info"
    then have "info \<in> set ?adm" unfolding admitted_iff by auto
    moreover have "file_id info = os_uuid4 os j" using u by (simp add: upload_one_Some)
    ultimately show "(os_uuid4 os j, info) \<in> set (files (upload_multiple_files os s))"
      unfolding 5 by force
  qed
  from 1 2 3 4 6 7 show ?thesis by blast
qed

theorem upload_admission_witness:
  "overall_status (initial_state\<lparr>uploaded_file_paths :=
      [(''in/b.pdf'', ''b.pdf''), (''in/a.pdf'', ''a.pdf'')]\<rparr>) \<noteq> SUMMARIZED \<and>
   FileHandler_init sample_os UPLOAD_DIR PROCESSED_DIR = Inr () \<and>
   distinct (map (os_uuid4 sample_os) [0..<2]) \<and>
   validate_file sample_os ''in/b.pdf'' MAX_FILE_SIZE ALLOWED_EXTENSIONS = Inr (TooLarge 60000000) \<and>
   map file_name (map snd (files (upload_multiple_files sample_os
      (initial_state\<lparr>uploaded_file_paths :=
         [(''in/b.pdf'', ''b.pdf''), (''in/a.pdf'', ''a.pdf'')]\<rparr>)))) = [''a.pdf''] \<and>
   overall_status (upload_multiple_files sample_os
      (initial_state\<lparr>uploaded_file_paths :=
         [(''in/b.pdf'', ''b.pdf''), (''in/a.pdf'', ''a.pdf'')]\<rparr>)) = UPLOADED \<and>
   processing_progress (upload_multiple_files sample_os
      (initial_state\<lparr>uploaded_file_paths :=
         [(''in/b.pdf'', ''b.pdf''), (''in/a.pdf'', ''a.pdf'')]\<rparr>)) = [(''overall'', 20)]"
proof -
  let ?s = "initial_state\<lparr>uploaded_file_paths :=
      [(''in/b.pdf'', ''b.pdf''), (''in/a.pdf'', ''a.pdf'')]\<rparr>"
  have u: "uploaded_file_paths ?s = [(''in/b.pdf'', ''b.pdf''), (''in/a.pdf'', ''a.pdf'')]"
    by simp
  have h1: "overall_status ?s \<noteq> SUMMARIZED" by (simp add: initial_state_def)
  have h2: "FileHandler_init sample_os UPLOAD_DIR PROCESSED_DIR = Inr ()"
    by (simp add: FileHandler_init_def sample_os_def)
  have "show_nat 0 \<noteq> show_nat 1" by (simp add: show_nat.simps digit_char_def)
  then have d: "distinct (map (os_uuid4 sample_os) [0..<2])"
    by (simp add: sample_os_def upt_rec numeral_2_eq_2)
  have l: "length (uploaded_file_paths ?s) = 2" by simp
  have h3: "distinct (map (os_uuid4 sample_os) [0..<length (uploaded_file_paths ?s)])"
    unfolding l by (rule d)
  have h4: "uploaded_file_paths ?s \<noteq> []" by simp
  have v: "validate_file sample_os ''in/b.pdf'' MAX_FILE_SIZE ALLOWED_EXTENSIONS
             = Inr (TooLarge 60000000)"
    by (simp add: validate_file_def sample_os_def MAX_FILE_SIZE_def)
  have a: "map file_name (admitted sample_os 0 [(''in/b.pdf'', ''b.pdf''), (''in/a.pdf'', ''a.pdf'')])
             = [''a.pdf'']"
    by (simp add: upload_one_def validate_file_def save_uploaded_file_def sample_os_def
        MAX_FILE_SIZE_def ALLOWED_EXTENSIONS_def UPLOAD_DIR_def sample_suffix_def
        new_FileInfo_def Let_def)
  then have ne: "admitted sample_os 0 (uploaded_file_paths ?s) \<noteq> []" unfolding u by auto
  from upload_admission[OF h1 h2 h3 h4] ne a show ?thesis
    using h1 h2 d v unfolding u by simp
qed


section \<open>Summarisation\<close>

lemma generate_combined_summary_cases:
  "(\<exists>e. generate_combined_summary llm s = ''Error generating summary: '' @ e) \<or>
   (\<exists>prompt reply. llm_invoke llm prompt = Inr reply \<and>
        generate_combined_summary llm s = strip reply)"
  unfolding generate_combined_summary_def Let_def
  by (auto split: sum.splits)

lemma generate_collection_questions_cases:
  "generate_collection_questions llm summary s = default_questions \<or>
   (\<exists>prompt reply. llm_invoke llm prompt = Inr reply \<and>
        generate_collection_questions llm summary s = parse_questions reply)"
  unfolding generate_collection_questions_def
  by (auto split: sum.splits)

lemma summary_fields:
  assumes "overall_status s = OCR_COMPLETE" and "llm_init llm = None"
  shows "combined_summary (generate_multi_document_summary llm s) =
           Some (generate_combined_summary llm (s\<lparr>current_step := ''summarize''\<rparr>))"
    and "suggested_questions (generate_multi_document_summary llm s) =
           generate_collection_questions llm
             (generate_combined_summary llm (s\<lparr>current_step := ''summarize''\<rparr>))
             (s\<lparr>current_step := ''summarize''\<rparr>)"
  using assms by (simp_all add: generate_multi_document_summary_def Let_def)

text \<open>
  C5 (amended). \<open>generate_multi_document_summary\<close> requires the status \<open>OCR_COMPLETE\<close>:
  from any other status it sets the status \<open>ERROR\<close>, and it does so too when the
  summariser cannot be built. When the status is \<open>OCR_COMPLETE\<close> and the summariser is
  built, it sets the status \<open>SUMMARIZED\<close> and the overall progress to 100, whether the calls
  of the language model succeed or fail. The summary is then the stripped reply of a call
  that succeeded, or an error text; the suggested questions are parsed from the reply of a
  call that succeeded, or they are the eight fixed questions. When every call of the model
  fails, the summary is an error text and the questions are the eight fixed ones.
\<close>

theorem summarize_gate:
  "(overall_status s \<noteq> OCR_COMPLETE \<longrightarrow>
      overall_status (generate_multi_document_summary llm s) = ERROR) \<and>
   (overall_status s = OCR_COMPLETE \<and> llm_init llm \<noteq> None \<longrightarrow>
      overall_status (generate_multi_document_summary llm s) = ERROR) \<and>
   (overall_status s = OCR_COMPLETE \<and> llm_init llm = None \<longrightarrow>
      overall_status (generate_multi_document_summary llm s) = SUMMARIZED \<and>
      map_of (processing_progress (generate_multi_document_summary llm s)) ''overall'' = Some 100 \<and>
      ((\<exists>e. combined_summary (generate_multi_document_summary llm s) =
               Some (''Error generating summary: '' @ e)) \<or>
       (\<exists>prompt reply. llm_invoke llm prompt = Inr reply \<and>
               combined_summary (generate_multi_document_summary llm s) = Some (strip reply))) \<and>
      (suggested_questions (generate_multi_document_summary llm s) = default_questions \<or>
       (\<exists>prompt reply. llm_invoke llm prompt = Inr reply \<and>
               suggested_questions (generate_multi_document_summary llm s) = parse_questions reply))) \<and>
   (overall_status s = OCR_COMPLETE \<and> llm_init llm = None \<and>
      (\<forall>prompt. \<exists>e. llm_invoke llm prompt = Inl e) \<longrightarrow>
      (\<exists>e. combined_summary (generate_multi_document_summary llm s) =
              Some (''Error generating summary: '' @ e)) \<and>
      suggested_questions (generate_multi_document_summary llm s) = default_questions)"
proof -
  let ?r = "generate_multi_document_summary llm s"
  let ?s1 = "s\<lparr>current_step := ''summarize''\<rparr>"
  let ?sum = "generate_combined_summary llm ?s1"
  have 1: "overall_status s \<noteq> OCR_COMPLETE \<longrightarrow> overall_status ?r = ERROR"
    by (simp add: generate_multi_document_summary_def Let_def summary_failed_def)
  have 2: "overall_status s = OCR_COMPLETE \<and> llm_init llm \<noteq> None \<longrightarrow> overall_status ?r = ERROR"
    by (auto simp: generate_multi_document_summary_def Let_def summary_failed_def
        split: option.splits)
  have 3: "overall_status s = OCR_COMPLETE \<and> llm_init llm = None \<longrightarrow>
      overall_status ?r = SUMMARIZED \<and> map_of (processing_progress ?r) ''overall'' = Some 100"
    by (simp add: generate_multi_document_summary_def Let_def update_conv')
  have 4: "overall_status s = OCR_COMPLETE \<and> llm_init llm = None \<longrightarrow>
      ((\<exists>e. combined_summary ?r = Some (''Error generating summary: '' @ e)) \<or>
       (\<exists>prompt reply. llm_invoke llm prompt = Inr reply \<and> combined_summary ?r = Some (strip reply)))"
    using generate_combined_summary_cases[of llm ?s1] by (auto simp: summary_fields)
  have 5: "overall_status s = OCR_COMPLETE \<and> llm_init llm = None \<longrightarrow>
      (suggested_questions ?r = default_questions \<or>
       (\<exists>prompt reply. llm_invoke llm prompt = Inr reply \<and>
               suggested_questions ?r = parse_questions reply))"
    using generate_collection_questions_cases[of llm ?sum ?s1] by (auto simp: summary_fields)
  have 6: "overall_status s = OCR_COMPLETE \<and> llm_init llm = None \<and>
      (\<forall>prompt. \<exists>e. llm_invoke llm prompt = Inl e) \<longrightarrow>
      (\<exists>e. combined_summary ?r = Some (''Error generating summary: '' @ e)) \<and>
      suggested_questions ?r = default_questions"
  proof (intro impI)
    assume a: "overall_status s = OCR_COMPLETE \<and> llm_init llm = None \<and>
      (\<forall>prompt. \<exists>e. llm_invoke llm prompt = Inl e)"
    then have no: "\<And>prompt reply. llm_invoke llm prompt \<noteq> Inr reply" by (metis sum.distinct(1))
    from a 4 no have x: "\<exists>e. combined_summary ?r = Some (''Error generating summary: '' @ e)"
      by blast
    from a 5 no have y: "suggested_questions ?r = default_questions" by blast
    from x y show "(\<exists>e. combined_summary ?r = Some (''Error generating summary: '' @ e)) \<and>
      suggested_questions ?r = default_questions" ..
  qed
  from 1 2 3 4 5 6 show ?thesis by blast
qed

lemma extracted_state_status: "overall_status extracted_state = OCR_COMPLETE"
  unfolding extracted_state_def by code_simp

theorem summarize_gate_witness:
  "overall_status initial_state \<noteq> OCR_COMPLETE \<and>
   overall_status (generate_multi_document_summary sample_llm initial_state) = ERROR \<and>
   overall_status extracted_state = OCR_COMPLETE \<and>
   llm_init (sample_llm\<lparr>llm_init := Some ''no key''\<rparr>) \<noteq> None \<and>
   overall_status (generate_multi_document_summary (sample_llm\<lparr>llm_init := Some ''no key''\<rparr>)
      extracted_state) = ERROR \<and>
   llm_init sample_llm = None \<and>
   overall_status (generate_multi_document_summary sample_llm extracted_state) = SUMMARIZED \<and>
   map_of (processing_progress (generate_multi_document_summary sample_llm extracted_state))
      ''overall'' = Some 100 \<and>
   llm_init (sample_llm\<lparr>llm_invoke := (\<lambda>prompt. Inl ''timeout'')\<rparr>) = None \<and>
   (\<forall>prompt. \<exists>e. llm_invoke (sample_llm\<lparr>llm_invoke := (\<lambda>prompt. Inl ''timeout'')\<rparr>) prompt = Inl e) \<and>
   suggested_questions (generate_multi_document_summary
      (sample_llm\<lparr>llm_invoke := (\<lambda>prompt. Inl ''timeout'')\<rparr>) extracted_state) = default_questions"
proof -
  let ?bad = "sample_llm\<lparr>llm_invoke := (\<lambda>prompt. Inl ''timeout'')\<rparr>"
  have a: "overall_status initial_state \<noteq> OCR_COMPLETE" by (simp add: initial_state_def)
  have b: "llm_init (sample_llm\<lparr>llm_init := Some ''no key''\<rparr>) \<noteq> None" by simp
  have c: "llm_init sample_llm = None" by (simp add: sample_llm_def)
  have d: "llm_init ?bad = None" by (simp add: sample_llm_def)
  have e: "\<forall>prompt. \<exists>e. llm_invoke ?bad prompt = Inl e" by simp
  from summarize_gate[of initial_state sample_llm]
  have 1: "overall_status (generate_multi_document_summary sample_llm initial_state) = ERROR"
    using a by blast
  from summarize_gate[of extracted_state "sample_llm\<lparr>llm_init := Some ''no key''\<rparr>"]
  have 2: "overall_status (generate_multi_document_summary
             (sample_llm\<lparr>llm_init := Some ''no key''\<rparr>) extracted_state) = ERROR"
    using b extracted_state_status by blast
  from summarize_gate[of extracted_state sample_llm]
  have 3: "overall_status (generate_multi_document_summary sample_llm extracted_state) = SUMMARIZED \<and>
           map_of (processing_progress (generate_multi_document_summary sample_llm extracted_state))
             ''overall'' = Some 100"
    using c extracted_state_status by blast
  from summarize_gate[of extracted_state ?bad]
  have 4: "suggested_questions (generate_multi_document_summary ?bad extracted_state)
             = default_questions"
    using d e extracted_state_status by blast
  from a b c d e 1 2 3 4 extracted_state_status show ?thesis by blast
qed

text \<open>
  A failed call of the language model does not lead to the status \<open>ERROR\<close>: the exception
  is caught where the summary is generated, its text becomes the summary, and the batch is
  summarised.
\<close>

theorem summarize_model_failure_counterexample:
  "overall_status extracted_state = OCR_COMPLETE \<and>
   llm_invoke (sample_llm\<lparr>llm_invoke := (\<lambda>prompt. Inl ''timeout'')\<rparr>) ''any prompt'' = Inl ''timeout'' \<and>
   overall_status (generate_multi_document_summary
      (sample_llm\<lparr>llm_invoke := (\<lambda>prompt. Inl ''timeout'')\<rparr>) extracted_state) = SUMMARIZED \<and>
   combined_summary (generate_multi_document_summary
      (sample_llm\<lparr>llm_invoke := (\<lambda>prompt. Inl ''timeout'')\<rparr>) extracted_state) =
     Some ''Error generating summary: timeout''"
  unfolding extracted_state_def by code_simp

section \<open>Questions\<close>

text \<open>
  C6 (amended). For every state whose status is not \<open>SUMMARIZED\<close>,
  \<open>process_multi_document_question\<close> returns the state with nothing changed but the
  response: for a question that is not empty the response is the text that the documents
  are not ready, and for an empty or missing question it is the text that no question was
  provided. In both cases the chat history is the one of the state.
\<close>

theorem ask_not_ready:
  assumes "overall_status s \<noteq> SUMMARIZED"
  shows "(current_query s \<noteq> None \<and> current_query s \<noteq> Some [] \<longrightarrow>
            process_multi_document_question ir llm s = s\<lparr>response := Some not_ready_response\<rparr>) \<and>
         (current_query s = None \<or> current_query s = Some [] \<longrightarrow>
            process_multi_document_question ir llm s =
              s\<lparr>response := Some ''No question provided.''\<rparr>) \<and>
         chat_history (process_multi_document_question ir llm s) = chat_history s"
  using assms by (auto simp: process_multi_document_question_def split: option.splits)

theorem ask_not_ready_witness:
  "overall_status (initial_state\<lparr>current_query := Some ''Why?''\<rparr>) \<noteq> SUMMARIZED \<and>
   current_query (initial_state\<lparr>current_query := Some ''Why?''\<rparr>) \<noteq> None \<and>
   current_query (initial_state\<lparr>current_query := Some ''Why?''\<rparr>) \<noteq> Some [] \<and>
   process_multi_document_question sample_ir sample_llm
      (initial_state\<lparr>current_query := Some ''Why?''\<rparr>) =
     initial_state\<lparr>current_query := Some ''Why?'', response := Some not_ready_response\<rparr> \<and>
   chat_history (process_multi_document_question sample_ir sample_llm
      (initial_state\<lparr>current_query := Some ''Why?''\<rparr>)) = Some [] \<and>
   overall_status initial_state \<noteq> SUMMARIZED \<and>
   current_query initial_state = None \<and>
   process_multi_document_question sample_ir sample_llm initial_state =
     initial_state\<lparr>response := Some ''No question provided.''\<rparr>"
proof -
  let ?s = "initial_state\<lparr>current_query := Some ''Why?''\<rparr>"
  have a: "overall_status ?s \<noteq> SUMMARIZED" by (simp add: initial_state_def)
  have b: "current_query ?s \<noteq> None" "current_query ?s \<noteq> Some []" by simp_all
  have d: "chat_history ?s = Some []" by (simp add: initial_state_def)
  have a': "overall_status initial_state \<noteq> SUMMARIZED" by (simp add: initial_state_def)
  have b': "current_query initial_state = None" by (simp add: initial_state_def)
  from ask_not_ready[OF a, of sample_ir sample_llm] b
  have 1: "process_multi_document_question sample_ir sample_llm ?s =
             ?s\<lparr>response := Some not_ready_response\<rparr>"
    and 2: "chat_history (process_multi_document_question sample_ir sample_llm ?s) = chat_history ?s"
    by blast+
  from ask_not_ready[OF a', of sample_ir sample_llm] b'
  have 3: "process_multi_document_question sample_ir sample_llm initial_state =
             initial_state\<lparr>response := Some ''No question provided.''\<rparr>"
    by blast
  from a b a' b' 1 2 3 d show ?thesis by simp
qed

text \<open>
  On a state that is not summarised, an empty question is not answered with the text that
  the documents are not ready: the question is looked at before the status.
\<close>

theorem ask_empty_question_counterexample:
  "overall_status (initial_state\<lparr>current_query := Some []\<rparr>) \<noteq> SUMMARIZED \<and>
   response (process_multi_document_question sample_ir sample_llm
      (initial_state\<lparr>current_query := Some []\<rparr>)) = Some ''No question provided.'' \<and>
   response (process_multi_document_question sample_ir sample_llm
      (initial_state\<lparr>current_query := Some []\<rparr>)) \<noteq> Some not_ready_response"
  by (simp add: process_multi_document_question_def initial_state_def not_ready_response_def)

lemma answer_cases:
  "(\<exists>e. fst (answer_multi_document_question ir llm agent q s) = qa_apology @ e) \<or>
   (\<exists>prompt reply. llm_invoke llm prompt = Inr reply \<and>
        fst (answer_multi_document_question ir llm agent q s) = strip reply)"
  unfolding answer_multi_document_question_def Let_def
  by (auto split: sum.splits)

text \<open>
  C7 (amended). For every summarised state, every question that is not empty and every
  environment in which the question answering agent can be built,
  \<open>process_multi_document_question\<close> appends exactly two entries to the chat history:
  first the entry of the user with the question, then the entry of the assistant with the
  answer. The answer is the stripped reply of the language model, or, when the retrieval or
  the call of the model fails, the apology followed by the text of the error. A call with an
  empty question, and a call in which the agent cannot be built, append nothing.
\<close>

theorem ask_appends_two:
  assumes "overall_status s = SUMMARIZED" and "current_query s = Some q" and "q \<noteq> []"
    and "llm_init llm = None"
  shows "chat_history (process_multi_document_question ir llm s) =
           Some (history_of s @ [\<lparr>entry_role = User, entry_content = q\<rparr>,
                                 \<lparr>entry_role = Assistant, entry_content = qa_answer ir llm q s\<rparr>]) \<and>
         response (process_multi_document_question ir llm s) = Some (qa_answer ir llm q s) \<and>
         ((\<exists>e. qa_answer ir llm q s = qa_apology @ e) \<or>
          (\<exists>prompt reply. llm_invoke llm prompt = Inr reply \<and> qa_answer ir llm q s = strip reply))"
proof -
  have "chat_history (process_multi_document_question ir llm s) =
           Some (history_of s @ [\<lparr>entry_role = User, entry_content = q\<rparr>,
                                 \<lparr>entry_role = Assistant, entry_content = qa_answer ir llm q s\<rparr>])"
    and "response (process_multi_document_question ir llm s) = Some (qa_answer ir llm q s)"
    using assms
    by (simp_all add: process_multi_document_question_def Let_def case_prod_beta history_of_def
        qa_answer_def)
  then show ?thesis using answer_cases[of ir llm _ q s] unfolding qa_answer_def by blast
qed

theorem ask_appends_two_witness:
  "overall_status (two_chunk_state\<lparr>current_query := Some ''tea''\<rparr>) = SUMMARIZED \<and>
   current_query (two_chunk_state\<lparr>current_query := Some ''tea''\<rparr>) = Some ''tea'' \<and>
   ''tea'' \<noteq> [] \<and> llm_init sample_llm = None \<and>
   chat_history (process_multi_document_question sample_ir sample_llm
      (two_chunk_state\<lparr>current_query := Some ''tea''\<rparr>)) =
     Some [\<lparr>entry_role = User, entry_content = ''tea''\<rparr>,
           \<lparr>entry_role = Assistant, entry_content = ''An answer.''\<rparr>]"
proof -
  let ?s = "two_chunk_state\<lparr>current_query := Some ''tea''\<rparr>"
  have a: "overall_status ?s = SUMMARIZED" by (simp add: two_chunk_state_def)
  have b: "current_query ?s = Some ''tea''" by simp
  have c: "''tea'' \<noteq> []" by simp
  have d: "llm_init sample_llm = None" by (simp add: sample_llm_def)
  have h: "history_of ?s = []" by (simp add: history_of_def two_chunk_state_def initial_state_def)
  have e: "qa_answer sample_ir sample_llm ''tea'' ?s = ''An answer.''" by code_simp
  from ask_appends_two[OF a b c d, of sample_ir] show ?thesis using a d h e by simp
qed

theorem ask_appends_nothing_counterexample:
  "overall_status (two_chunk_state\<lparr>current_query := Some []\<rparr>) = SUMMARIZED \<and>
   chat_history (two_chunk_state\<lparr>current_query := Some []\<rparr>) = Some [] \<and>
   chat_history (process_multi_document_question sample_ir sample_llm
      (two_chunk_state\<lparr>current_query := Some []\<rparr>)) = Some [] \<and>
   response (process_multi_document_question sample_ir sample_llm
      (two_chunk_state\<lparr>current_query := Some []\<rparr>)) = Some ''No question provided.'' \<and>
   overall_status (two_chunk_state\<lparr>current_query := Some ''tea''\<rparr>) = SUMMARIZED \<and>
   chat_history (two_chunk_state\<lparr>current_query := Some ''tea''\<rparr>) = Some [] \<and>
   chat_history (process_multi_document_question sample_ir (sample_llm\<lparr>llm_init := Some ''no key''\<rparr>)
      (two_chunk_state\<lparr>current_query := Some ''tea''\<rparr>)) = Some [] \<and>
   response (process_multi_document_question sample_ir (sample_llm\<lparr>llm_init := Some ''no key''\<rparr>)
      (two_chunk_state\<lparr>current_query := Some ''tea''\<rparr>)) =
     Some ''I apologize, but I encountered an error while processing your question: no key''"
  by (simp add: process_multi_document_question_def two_chunk_state_def initial_state_def)


section \<open>Retrieval\<close>

lemma MIN_SIMILARITY_gt: "1 / 10 < MIN_SIMILARITY"
  by (simp add: MIN_SIMILARITY_def)

lemma length_slice_to: "0 \<le> k \<Longrightarrow> length (slice_to k xs) \<le> nat k"
  by (simp add: slice_to_def)

lemma select_relevant_length:
  "select_relevant chunks sims idxs = Some rel \<Longrightarrow> length rel \<le> length idxs"
  by (induction idxs arbitrary: rel) (auto split: if_splits)

lemma select_relevant_scores:
  "select_relevant chunks sims idxs = Some rel \<Longrightarrow> r \<in> set rel \<Longrightarrow>
     MIN_SIMILARITY < snd r \<and>
     (\<exists>i\<in>set idxs. i < length chunks \<and> i < length sims \<and> r = (chunks ! i, sims ! i))"
  by (induction idxs arbitrary: rel) (auto split: if_splits)

lemma select_relevant_none_clear:
  "\<forall>x\<in>set sims. x \<le> MIN_SIMILARITY \<Longrightarrow> select_relevant chunks sims idxs = Some rel \<Longrightarrow> rel = []"
  by (induction idxs arbitrary: rel)
     (auto split: if_splits simp: not_less[symmetric] simp del: not_less)

lemma sort_by_score_props:
  "length (sort_by_score rs) = length rs" "set (sort_by_score rs) = set rs"
  "sorted_wrt (\<lambda>a b. snd b \<le> snd a) (sort_by_score rs)"
proof -
  have "sorted (map (\<lambda>r. - snd r) (sort_by_score rs))"
    unfolding sort_by_score_def by (rule sorted_sort_key)
  then show "sorted_wrt (\<lambda>a b. snd b \<le> snd a) (sort_by_score rs)"
    by (simp add: sorted_wrt_map)
qed (simp_all add: sort_by_score_def)

lemma select_relevant_eq:
  "select_relevant chunks sims idxs = Some rel \<Longrightarrow>
     rel = map (\<lambda>i. (chunks ! i, sims ! i)) (filter (\<lambda>i. MIN_SIMILARITY < sims ! i) idxs)"
  by (induction idxs arbitrary: rel) (auto split: if_splits)

lemma sort_by_score_stable:
  "filter (\<lambda>r. snd r = x) (sort_by_score rs) = filter (\<lambda>r. snd r = x) rs"
proof -
  have "filter (\<lambda>r. - snd r = - x) (sort_key (\<lambda>r. - snd r) rs) = filter (\<lambda>r. - snd r = - x) rs"
    by (rule sort_key_stable)
  then show ?thesis by (simp add: sort_by_score_def)
qed

lemma equal_scores_of_selection:
  assumes "select_relevant chunks sims idxs = Some rel"
  shows "filter (\<lambda>r. snd r = x) (sort_by_score rel) =
           map (\<lambda>i. (chunks ! i, sims ! i)) (filter (\<lambda>i. sims ! i = x \<and> MIN_SIMILARITY < x) idxs)"
proof -
  have "filter (\<lambda>r. snd r = x) rel =
          map (\<lambda>i. (chunks ! i, sims ! i))
            (filter (\<lambda>i. MIN_SIMILARITY < sims ! i \<and> sims ! i = x) idxs)"
    unfolding select_relevant_eq[OF assms] by (simp add: filter_map comp_def)
  also have "filter (\<lambda>i. MIN_SIMILARITY < sims ! i \<and> sims ! i = x) idxs =
             filter (\<lambda>i. sims ! i = x \<and> MIN_SIMILARITY < x) idxs"
    by (rule filter_cong) auto
  finally show ?thesis by (simp add: sort_by_score_stable)
qed

lemma retrieve_cases:
  "retrieve_relevant_chunks ir agent query top_k = [] \<or>
   (\<exists>chunks vectors sims rel.
      chunks_with_metadata agent = Some chunks \<and> chunks \<noteq> [] \<and> chunk_vectors agent = Some vectors \<and>
      similarities ir vectors query = Inr sims \<and>
      select_relevant chunks sims (slice_to top_k (rev (argsort ir sims))) = Some rel \<and>
      retrieve_relevant_chunks ir agent query top_k = sort_by_score rel)"
  by (auto simp: retrieve_relevant_chunks_def Let_def split: option.splits sum.splits)

text \<open>
  C2 (amended). For every agent, every query and every positive \<open>top_k\<close>, whatever the
  vectoriser and the index sort return, \<open>retrieve_relevant_chunks\<close> returns at most
  \<open>top_k\<close> results; every returned score is strictly greater than 0.1; the results are
  sorted by descending score; and the result is empty when the index has not been built
  and when no chunk has a score above the threshold. Results of equal score come in the
  order in which the reversed index sort lists their chunks among its first \<open>top_k\<close>
  indices, which need not be the order of the corpus.
\<close>

theorem retrieval_bounds:
  assumes "0 < top_k"
  shows "length (retrieve_relevant_chunks ir agent query top_k) \<le> nat top_k \<and>
         (\<forall>r\<in>set (retrieve_relevant_chunks ir agent query top_k). 1 / 10 < snd r) \<and>
         sorted_wrt (\<lambda>a b. snd b \<le> snd a) (retrieve_relevant_chunks ir agent query top_k) \<and>
         (no_chunks agent \<or> chunk_vectors agent = None \<longrightarrow>
            retrieve_relevant_chunks ir agent query top_k = []) \<and>
         (\<forall>vectors sims. chunk_vectors agent = Some vectors \<and>
            similarities ir vectors query = Inr sims \<and> (\<forall>x\<in>set sims. x \<le> MIN_SIMILARITY) \<longrightarrow>
            retrieve_relevant_chunks ir agent query top_k = []) \<and>
         (\<forall>chunks vectors sims x.
            chunks_with_metadata agent = Some chunks \<and> chunk_vectors agent = Some vectors \<and>
            similarities ir vectors query = Inr sims \<and>
            retrieve_relevant_chunks ir agent query top_k \<noteq> [] \<longrightarrow>
            filter (\<lambda>r. snd r = x) (retrieve_relevant_chunks ir agent query top_k) =
              map (\<lambda>i. (chunks ! i, sims ! i))
                (filter (\<lambda>i. sims ! i = x \<and> MIN_SIMILARITY < x)
                   (slice_to top_k (rev (argsort ir sims)))))"
proof -
  let ?r = "retrieve_relevant_chunks ir agent query top_k"
  have 4: "no_chunks agent \<or> chunk_vectors agent = None \<longrightarrow> ?r = []"
    by (auto simp: retrieve_relevant_chunks_def no_chunks_def split: option.splits)
  from retrieve_cases[of ir agent query top_k]
  show ?thesis
  proof
    assume e: "?r = []"
    then show ?thesis by simp
  next
    assume "\<exists>chunks vectors sims rel.
      chunks_with_metadata agent = Some chunks \<and> chunks \<noteq> [] \<and> chunk_vectors agent = Some vectors \<and>
      similarities ir vectors query = Inr sims \<and>
      select_relevant chunks sims (slice_to top_k (rev (argsort ir sims))) = Some rel \<and>
      ?r = sort_by_score rel"
    then obtain chunks vectors sims rel where
      c: "chunks_with_metadata agent = Some chunks"
      and v: "chunk_vectors agent = Some vectors" and s: "similarities ir vectors query = Inr sims"
      and sel: "select_relevant chunks sims (slice_to top_k (rev (argsort ir sims))) = Some rel"
      and r: "?r = sort_by_score rel" by blast
    have "length rel \<le> length (slice_to top_k (rev (argsort ir sims)))"
      using sel by (rule select_relevant_length)
    also have "\<dots> \<le> nat top_k" using assms by (intro length_slice_to) simp
    finally have 1: "length ?r \<le> nat top_k" by (simp add: r sort_by_score_props)
    have 2: "\<forall>r\<in>set ?r. 1 / 10 < snd r"
      using select_relevant_scores[OF sel] MIN_SIMILARITY_gt
      by (auto simp: r sort_by_score_props intro: less_trans)
    have 3: "sorted_wrt (\<lambda>a b. snd b \<le> snd a) ?r" by (simp add: r sort_by_score_props)
    have 5: "\<forall>vectors sims. chunk_vectors agent = Some vectors \<and>
            similarities ir vectors query = Inr sims \<and> (\<forall>x\<in>set sims. x \<le> MIN_SIMILARITY) \<longrightarrow>
            ?r = []"
    proof (intro allI impI)
      fix vectors' sims'
      assume a: "chunk_vectors agent = Some vectors' \<and> similarities ir vectors' query = Inr sims' \<and>
        (\<forall>x\<in>set sims'. x \<le> MIN_SIMILARITY)"
      then have "sims' = sims" using v s by auto
      with a have "\<forall>x\<in>set sims. x \<le> MIN_SIMILARITY" by simp
      then have "rel = []" using sel by (rule select_relevant_none_clear)
      then show "?r = []" by (simp add: r sort_by_score_def)
    qed
    have 6: "\<forall>chunks vectors sims x.
            chunks_with_metadata agent = Some chunks \<and> chunk_vectors agent = Some vectors \<and>
            similarities ir vectors query = Inr sims \<and> ?r \<noteq> [] \<longrightarrow>
            filter (\<lambda>r. snd r = x) ?r =
              map (\<lambda>i. (chunks ! i, sims ! i))
                (filter (\<lambda>i. sims ! i = x \<and> MIN_SIMILARITY < x)
                   (slice_to top_k (rev (argsort ir sims))))"
    proof (intro allI impI)
      fix chunks' vectors' sims' x
      assume a: "chunks_with_metadata agent = Some chunks' \<and> chunk_vectors agent = Some vectors' \<and>
            similarities ir vectors' query = Inr sims' \<and> ?r \<noteq> []"
      then have "chunks' = chunks" "sims' = sims" using c v s by auto
      then show "filter (\<lambda>r. snd r = x) ?r =
              map (\<lambda>i. (chunks' ! i, sims' ! i))
                (filter (\<lambda>i. sims' ! i = x \<and> MIN_SIMILARITY < x)
                   (slice_to top_k (rev (argsort ir sims'))))"
        unfolding r using equal_scores_of_selection[OF sel] by simp
    qed
    from 1 2 3 4 5 6 show ?thesis by blast
  qed
qed

theorem retrieval_bounds_witness:
  "(0 :: int) < 1 \<and>
   retrieve_relevant_chunks sample_ir built_agent ''tea'' 1 = [(sample_chunk ''b'' ''tea'', 1 / 2)] \<and>
   length (retrieve_relevant_chunks sample_ir built_agent ''tea'' 1) \<le> nat 1 \<and>
   no_chunks \<lparr>chunk_vectors = None, chunks_with_metadata = None\<rparr> \<and>
   retrieve_relevant_chunks sample_ir \<lparr>chunk_vectors = None, chunks_with_metadata = None\<rparr> ''tea'' 1 = [] \<and>
   chunk_vectors built_agent = Some [''tea'', ''tea''] \<and>
   similarities (sample_ir\<lparr>similarities := (\<lambda>contents query. Inr [1 / 20, 0])\<rparr>) [''tea'', ''tea''] ''milk''
     = Inr [1 / 20, 0] \<and>
   retrieve_relevant_chunks (sample_ir\<lparr>similarities := (\<lambda>contents query. Inr [1 / 20, 0])\<rparr>)
     built_agent ''milk'' 1 = []"
proof -
  let ?low = "sample_ir\<lparr>similarities := (\<lambda>contents query. Inr [1 / 20, 0])\<rparr>"
  let ?none = "\<lparr>chunk_vectors = None, chunks_with_metadata = None\<rparr>"
  have p: "(0 :: int) < 1" by simp
  have e: "retrieve_relevant_chunks sample_ir built_agent ''tea'' 1
             = [(sample_chunk ''b'' ''tea'', 1 / 2)]"
    by code_simp
  have n: "no_chunks ?none" by (simp add: no_chunks_def)
  have v: "chunk_vectors built_agent = Some [''tea'', ''tea'']" by code_simp
  have s: "similarities ?low [''tea'', ''tea''] ''milk'' = Inr [1 / 20, 0]" by simp
  have l: "\<forall>x\<in>set [1 / 20, 0 :: rat]. x \<le> MIN_SIMILARITY" by (simp add: MIN_SIMILARITY_def)
  from retrieval_bounds[OF p, of sample_ir built_agent "''tea''"]
       retrieval_bounds[OF p, of sample_ir ?none "''tea''"]
       retrieval_bounds[OF p, of ?low built_agent "''milk''"]
  show ?thesis using p e n v s l by simp
qed

text \<open>
  Equal scores are not returned in the order of the corpus. Two chunks with the same
  content have the same score; an ascending stable index sort lists them in the order of
  the corpus, the source reverses this list, and the second chunk of the corpus is returned
  before the first.
\<close>

theorem retrieval_tie_order_counterexample:
  "chunks_with_metadata built_agent = Some [sample_chunk ''a'' ''tea'', sample_chunk ''b'' ''tea''] \<and>
   similarities sample_ir [''tea'', ''tea''] ''tea'' = Inr [1 / 2, 1 / 2] \<and>
   argsort sample_ir [1 / 2, 1 / 2] = [0, 1] \<and>
   retrieve_relevant_chunks sample_ir built_agent ''tea'' 5 =
     [(sample_chunk ''b'' ''tea'', 1 / 2), (sample_chunk ''a'' ''tea'', 1 / 2)]"
  by code_simp


end
